theory Spec2Isabelle
  imports Complex_Main
begin

section \<open>Python values and errors\<close>

text \<open>
  The two modules verified here, \<^verbatim>\<open>reclass_combined.py\<close> and
  \<^verbatim>\<open>vcftobedpeconverter.py\<close>, are Python 2 code. Python integers are unbounded and are
  modelled as \<open>int\<close>. Python floats are idealised as \<open>real\<close>: rounding, overflow and
  underflow are not part of this model, and every statement about a depth test is a
  statement about the exact arithmetic the code spells out. NaN is modelled in one
  place only, the naive-Bayes test, where a missing entry of a merged table is NaN.

  A raised exception is a value \<open>Inl e\<close> of the sum type \<open>error + 'a\<close>.
\<close>

datatype error =
    KeyError string
  | ValueError string
  | IndexError
  | TypeError
  | AttributeError
  | AssertionError
  | ZeroDivisionError

text \<open>
  The values stored in \<^verbatim>\<open>Variant.info\<close> and \<^verbatim>\<open>Variant.pos\<close>: a string read from the
  VCF line, \<^verbatim>\<open>True\<close> for a flag, or an integer (\<^verbatim>\<open>pos\<close> as parsed, and
  \<^verbatim>\<open>END\<close> after \<^verbatim>\<open>set_info('END', breakpoint2)\<close>).
\<close>

datatype py_val = PStr string | PInt int | PTrue

section \<open>Strings\<close>

text \<open>
  \<^verbatim>\<open>s.split(c)\<close> for a one-character separator: the pieces between the separators, one
  more than there are separators (so \<^verbatim>\<open>''.split(',')\<close> is \<^verbatim>\<open>['']\<close>).
\<close>

fun split_on :: "char \<Rightarrow> string \<Rightarrow> string list" where
  "split_on c [] = [[]]"
| "split_on c (x # xs) =
     (if x = c then [] # split_on c xs
      else (case split_on c xs of
              piece # pieces \<Rightarrow> (x # piece) # pieces
            | [] \<Rightarrow> [[x]]))"

text \<open>\<^verbatim>\<open>s.startswith(p)\<close>.\<close>

definition startswith :: "string \<Rightarrow> string \<Rightarrow> bool" where
  "startswith s p = (take (length p) s = p)"

text \<open>
  The whitespace of Python 2 byte strings: space, tab, newline, carriage return,
  vertical tab, form feed. \<^verbatim>\<open>s.rstrip()\<close> and \<^verbatim>\<open>s.strip()\<close> remove it at the ends.
\<close>

definition is_space :: "char \<Rightarrow> bool" where
  "is_space c = (c \<in> set [CHR '' '', CHR 0x09, CHR 0x0A, CHR 0x0D, CHR 0x0B, CHR 0x0C])"

definition rstrip :: "string \<Rightarrow> string" where
  "rstrip s = rev (dropWhile is_space (rev s))"

definition strip :: "string \<Rightarrow> string" where
  "strip s = dropWhile is_space (rstrip s)"

text \<open>
  \<^verbatim>\<open>int(s)\<close> on a string, base 10: surrounding whitespace is ignored, one sign is allowed,
  at least one decimal digit must follow and nothing else; any other string raises
  \<^verbatim>\<open>ValueError\<close>.
\<close>

definition digit_val :: "char \<Rightarrow> nat option" where
  "digit_val c =
     (let n = (of_char c :: nat) in if 48 \<le> n \<and> n \<le> 57 then Some (n - 48) else None)"

fun digits_val :: "nat \<Rightarrow> string \<Rightarrow> nat option" where
  "digits_val acc [] = Some acc"
| "digits_val acc (c # cs) =
     (case digit_val c of None \<Rightarrow> None | Some d \<Rightarrow> digits_val (10 * acc + d) cs)"

definition nat_of_digits :: "string \<Rightarrow> nat option" where
  "nat_of_digits s = (if s = [] then None else digits_val 0 s)"

definition int_of_string :: "string \<Rightarrow> int option" where
  "int_of_string s =
     (case strip s of
        [] \<Rightarrow> None
      | c # cs \<Rightarrow>
          if c = CHR ''-'' then map_option (\<lambda>n. - int n) (nat_of_digits cs)
          else if c = CHR ''+'' then map_option int (nat_of_digits cs)
          else map_option int (nat_of_digits (c # cs)))"

definition invalid_literal :: error where
  "invalid_literal = ValueError ''invalid literal for int() with base 10''"

text \<open>\<^verbatim>\<open>int(x)\<close> on a stored value: \<^verbatim>\<open>int(True)\<close> is 1.\<close>

fun py_int :: "py_val \<Rightarrow> error + int" where
  "py_int (PInt n) = Inr n"
| "py_int PTrue = Inr 1"
| "py_int (PStr s) =
     (case int_of_string s of None \<Rightarrow> Inl invalid_literal | Some n \<Rightarrow> Inr n)"

text \<open>\<^verbatim>\<open>str(n)\<close> and \<^verbatim>\<open>'%s' % n\<close> on an integer: its decimal digits, with a minus sign.\<close>

definition digit_char :: "nat \<Rightarrow> char" where
  "digit_char d = ''0123456789'' ! d"

fun digits_of_nat :: "nat \<Rightarrow> string" where
  "digits_of_nat n =
     (if n < 10 then [digit_char n]
      else digits_of_nat (n div 10) @ [digit_char (n mod 10)])"

declare digits_of_nat.simps [simp del]

definition str_of_int :: "int \<Rightarrow> string" where
  "str_of_int i = (if i < 0 then CHR ''-'' # digits_of_nat (nat (- i)) else digits_of_nat (nat i))"

text \<open>\<^verbatim>\<open>'%s' % x\<close> on a stored value.\<close>

fun py_str :: "py_val \<Rightarrow> string" where
  "py_str (PStr s) = s"
| "py_str (PInt n) = str_of_int n"
| "py_str PTrue = ''True''"

text \<open>Sequencing of computations that may raise: the first exception is the result.\<close>

fun ebind :: "error + 'a \<Rightarrow> ('a \<Rightarrow> error + 'b) \<Rightarrow> error + 'b" where
  "ebind (Inl e) f = Inl e"
| "ebind (Inr x) f = f x"

fun emap :: "('a \<Rightarrow> error + 'b) \<Rightarrow> 'a list \<Rightarrow> error + 'b list" where
  "emap f [] = Inr []"
| "emap f (x # xs) = ebind (f x) (\<lambda>y. ebind (emap f xs) (\<lambda>ys. Inr (y # ys)))"

section \<open>The VCF record\<close>

text \<open>
  The classes \<^verbatim>\<open>Variant\<close> and \<^verbatim>\<open>Genotype\<close> are not part of the verified sources; the
  code reads and writes the attributes below. \<^verbatim>\<open>var.genotype(s).get_format(f)\<close> is
  \<open>gts var s f\<close>, a string. \<^verbatim>\<open>pos\<close> is an integer for every parsed line and becomes
  whatever \<^verbatim>\<open>to_bnd_strings\<close> assigns to it.
\<close>

record variant =
  chrom :: string
  pos :: py_val
  var_id :: string
  ref_allele :: string
  alt :: string
  qual :: string
  filter_field :: string
  info :: "string \<rightharpoonup> py_val"
  sample_list :: "string list"
  active_formats :: "string list"
  gts :: "string \<Rightarrow> string \<Rightarrow> string"

text \<open>
  The serialisers of \<^verbatim>\<open>Variant\<close>, which the code calls and this development takes as
  given functions of the record's current state.
\<close>

record variant_methods =
  get_info_string :: "variant \<Rightarrow> string"
  get_format_string :: "variant \<Rightarrow> string"
  get_gt_string :: "variant \<Rightarrow> string"
  get_var_string :: "variant \<Rightarrow> bool \<Rightarrow> string"

section \<open>Reciprocal overlap\<close>

text \<open>
  \<^verbatim>\<open>
  def reciprocal_overlap(a, b_list):
      overlap = 0
      b_aggregate = 0
      # catch divide by zero error
      if a[1] == a[0]:
          return 0
      # update the overlap and b_aggregate
      for b in b_list:
          b_aggregate += (b[1] - b[0])
          overlap += float(min(a[1], b[1]) - max(a[0], b[0]))
      # catch divide by zero error
      if b_aggregate == 0:
          return 0
      return min(overlap / (a[1] - a[0]), overlap / b_aggregate)
  \<close>
  The interval \<open>a\<close> and the features of \<open>b_list\<close> hold integers (\<^verbatim>\<open>var.pos\<close>,
  \<^verbatim>\<open>int(var.info['END'])\<close>, \<^verbatim>\<open>int(v[1])\<close>, \<^verbatim>\<open>int(v[2])\<close>); only the first two
  entries of a feature are read. The loop is a fold over \<open>b_list\<close> that carries
  \<open>(b_aggregate, overlap)\<close>.
\<close>

type_synonym interval = "int \<times> int"

fun overlap_loop :: "interval \<Rightarrow> interval list \<Rightarrow> int \<times> real \<Rightarrow> int \<times> real" where
  "overlap_loop a [] acc = acc"
| "overlap_loop a (b # bs) (b_aggregate, overlap) =
     overlap_loop a bs
       (b_aggregate + (snd b - fst b),
        overlap + real_of_int (min (snd a) (snd b) - max (fst a) (fst b)))"

definition reciprocal_overlap :: "interval \<Rightarrow> interval list \<Rightarrow> real" where
  "reciprocal_overlap a b_list =
     (if snd a = fst a then 0
      else
        (case overlap_loop a b_list (0, 0) of
           (b_aggregate, overlap) \<Rightarrow>
             if b_aggregate = 0 then 0
             else min (overlap / real_of_int (snd a - fst a))
                      (overlap / real_of_int b_aggregate)))"

text \<open>The aggregate width of a feature list, as the claim names it.\<close>

definition aggregate_width :: "interval list \<Rightarrow> int" where
  "aggregate_width b_list = sum_list (map (\<lambda>b. snd b - fst b) b_list)"

section \<open>Conversion to BEDPE\<close>

text \<open>
  \<^verbatim>\<open>
  def parse_bnd_alt_string(alt_string):
      r = re.compile(r'([][])(.+?)([][])')
      result = r.findall(alt_string)
      assert result
      sep1, region, sep2 = result[0]
      assert sep1 == sep2
      chrom2, breakpoint2 = region.split(':')
      breakpoint2 = int(breakpoint2)
      return sep1, chrom2, breakpoint2
  \<close>
  The first match of the regular expression starts at the leftmost bracket from which a
  match exists; the lazy group takes the fewest characters (at least one, none of them a
  newline) that are followed by a bracket.
\<close>

definition is_bracket :: "char \<Rightarrow> bool" where
  "is_bracket c = (c = CHR ''['' \<or> c = CHR '']'')"

fun lazy_region :: "string \<Rightarrow> string \<Rightarrow> (string \<times> char) option" where
  "lazy_region acc [] = None"
| "lazy_region acc (c # cs) =
     (if is_bracket c \<and> acc \<noteq> [] then Some (rev acc, c)
      else if c = CHR 0x0A then None
      else lazy_region (c # acc) cs)"

fun first_match :: "string \<Rightarrow> (char \<times> string \<times> char) option" where
  "first_match [] = None"
| "first_match (c # cs) =
     (if is_bracket c then
        (case lazy_region [] cs of
           Some (region, sep2) \<Rightarrow> Some (c, region, sep2)
         | None \<Rightarrow> first_match cs)
      else first_match cs)"

definition unpack_error :: error where
  "unpack_error = ValueError ''wrong number of values to unpack''"

definition parse_bnd_alt_string :: "string \<Rightarrow> error + (char \<times> string \<times> int)" where
  "parse_bnd_alt_string alt_string =
     (case first_match alt_string of
        None \<Rightarrow> Inl AssertionError
      | Some (sep1, region, sep2) \<Rightarrow>
          if sep1 \<noteq> sep2 then Inl AssertionError
          else
            (case split_on CHR '':'' region of
               [chrom2, breakpoint2] \<Rightarrow>
                 ebind (py_int (PStr breakpoint2)) (\<lambda>bp2. Inr (sep1, chrom2, bp2))
             | _ \<Rightarrow> Inl unpack_error))"

text \<open>
  The arithmetic of the converter is integer arithmetic on \<^verbatim>\<open>vcf_variant.pos\<close>, which
  \<^verbatim>\<open>Variant\<close> parses with \<^verbatim>\<open>int\<close>. A position that is not an integer (one that
  \<^verbatim>\<open>to_bnd_strings\<close> overwrote) is outside the converter's input and is reported as
  \<^verbatim>\<open>TypeError\<close>, which is what \<^verbatim>\<open>breakpoint1 -= 1\<close> and \<^verbatim>\<open>start + span[0]\<close>
  raise on a string; the check comes after the parser's own failures.
\<close>

fun pos_int :: "py_val \<Rightarrow> error + int" where
  "pos_int (PInt n) = Inr n"
| "pos_int _ = Inl TypeError"

text \<open>
  The eight values both breakpoint parsers return:
  \<open>(chrom1, start1, end1, chrom2, start2, end2, orientation1, orientation2)\<close>.
\<close>

type_synonym breakpoints =
  "string \<times> int \<times> int \<times> string \<times> int \<times> int \<times> string \<times> string"

text \<open>
  \<^verbatim>\<open>
  def bnd_breakpoints(self, vcf_variant):
      chrom1 = vcf_variant.chrom
      breakpoint1 = vcf_variant.pos
      orientation1 = orientation2 = '+'
      sep, chrom2, breakpoint2 = self.parse_bnd_alt_string(vcf_variant.alt)
      if vcf_variant.alt.startswith(sep):
          orientation1 = '-'
          breakpoint1 -= 1
      if sep == '[':
          orientation2 = '-'
          breakpoint2 -= 1
      vcf_variant.set_info('END', breakpoint2)
      return (chrom1, breakpoint1, breakpoint1, chrom2, breakpoint2, breakpoint2,
              orientation1, orientation2)
  \<close>
  The variant is mutated (\<^verbatim>\<open>set_info\<close>), so the model returns it with the tuple.
\<close>

definition bnd_breakpoints :: "variant \<Rightarrow> error + (variant \<times> breakpoints)" where
  "bnd_breakpoints vcf_variant =
     ebind (parse_bnd_alt_string (alt vcf_variant)) (\<lambda>(sep, chrom2, breakpoint2).
     ebind (pos_int (pos vcf_variant)) (\<lambda>breakpoint1.
       let (orientation1, breakpoint1) =
             (if startswith (alt vcf_variant) [sep] then (''-'', breakpoint1 - 1)
              else (''+'', breakpoint1));
           (orientation2, breakpoint2) =
             (if sep = CHR ''['' then (''-'', breakpoint2 - 1) else (''+'', breakpoint2));
           vcf_variant = vcf_variant\<lparr>info := (info vcf_variant)(''END'' \<mapsto> PInt breakpoint2)\<rparr>
       in Inr (vcf_variant,
               (chrom vcf_variant, breakpoint1, breakpoint1,
                chrom2, breakpoint2, breakpoint2, orientation1, orientation2))))"

text \<open>
  \<^verbatim>\<open>
  def simple_breakpoints(vcf_variant):
      breakpoint1 = vcf_variant.pos
      try:
          breakpoint2 = int(vcf_variant.info['END'])
      except KeyError:
          raise ValueError('END entry in VCF required for conversion to BEDPE')
      orientation1 = orientation2 = '+'
      if 'STRANDS' in vcf_variant.info:
          strands = vcf_variant.info['STRANDS']
          orientation1, orientation2 = strands[:2]
      return (vcf_variant.chrom, breakpoint1, breakpoint1,
              vcf_variant.chrom, breakpoint2, breakpoint2, orientation1, orientation2)
  \<close>
\<close>

definition end_required :: error where
  "end_required = ValueError ''END entry in VCF required for conversion to BEDPE''"

definition simple_breakpoints :: "variant \<Rightarrow> error + (variant \<times> breakpoints)" where
  "simple_breakpoints vcf_variant =
     ebind (case info vcf_variant ''END'' of
              None \<Rightarrow> Inl end_required
            | Some e \<Rightarrow> py_int e) (\<lambda>breakpoint2.
     ebind (case info vcf_variant ''STRANDS'' of
              None \<Rightarrow> Inr (''+'', ''+'')
            | Some (PStr strands) \<Rightarrow>
                (case take 2 strands of
                   [o1, o2] \<Rightarrow> Inr ([o1], [o2])
                 | _ \<Rightarrow> Inl unpack_error)
            | Some _ \<Rightarrow> Inl TypeError) (\<lambda>(orientation1, orientation2).
     ebind (pos_int (pos vcf_variant)) (\<lambda>breakpoint1.
       Inr (vcf_variant,
            (chrom vcf_variant, breakpoint1, breakpoint1,
             chrom vcf_variant, breakpoint2, breakpoint2, orientation1, orientation2)))))"

text \<open>
  \<^verbatim>\<open>
  def adjust_coordinate(vcf_variant, info_tag, start, end):
      if info_tag in vcf_variant.info:
          span = map(int, vcf_variant.info[info_tag].split(','))
          return (start + span[0], end + span[1])
      else:
          return (start, end)
  \<close>
  Python 2's \<^verbatim>\<open>map\<close> converts every piece before \<^verbatim>\<open>span\<close> is indexed.
\<close>

definition adjust_coordinate ::
  "variant \<Rightarrow> string \<Rightarrow> int \<Rightarrow> int \<Rightarrow> error + (int \<times> int)" where
  "adjust_coordinate vcf_variant info_tag start end' =
     (case info vcf_variant info_tag of
        None \<Rightarrow> Inr (start, end')
      | Some (PStr s) \<Rightarrow>
          ebind (emap (\<lambda>x. py_int (PStr x)) (split_on CHR '','' s)) (\<lambda>span.
            case span of
              s0 # s1 # _ \<Rightarrow> Inr (start + s0, end' + s1)
            | _ \<Rightarrow> Inl IndexError)
      | Some _ \<Rightarrow> Inl AttributeError)"

text \<open>
  The list that \<^verbatim>\<open>convert\<close> hands to \<^verbatim>\<open>Bedpe(map(str, [...]))\<close>, before \<^verbatim>\<open>str\<close> is
  applied to each entry.
\<close>

record bedpe_fields =
  b_c1 :: string
  b_s1 :: int
  b_e1 :: int
  b_c2 :: string
  b_s2 :: int
  b_e2 :: int
  b_name :: py_val
  b_score :: string
  b_o1 :: string
  b_o2 :: string
  b_svtype :: py_val
  b_filter :: string
  b_info_a :: string
  b_info_b :: string
  b_format :: string
  b_gt :: string

definition svtype_required :: error where
  "svtype_required = ValueError ''SVTYPE field required for conversion to BEDPE''"

text \<open>
  \<^verbatim>\<open>
  def convert(self, primary_variant, secondary_variant=None):
      vcf_variant = primary_variant
      if primary_variant is None:
          vcf_variant = secondary_variant
      try:
          sv_type = vcf_variant.info['SVTYPE']
      except KeyError:
          raise ValueError('SVTYPE field required for conversion to BEDPE')
      parser = self.simple_breakpoints
      if sv_type == 'BND':
          parser = self.bnd_breakpoints
      c1, s1, e1, c2, s2, e2, o1, o2 = parser(vcf_variant)
      s1, e1 = self.adjust_coordinate(vcf_variant, 'CIPOS', s1, e1)
      s2, e2 = self.adjust_coordinate(vcf_variant, 'CIEND', s2, e2)
      info_a = vcf_variant.get_info_string()
      if primary_variant is None:
          info_a = "MISSING"
          c1, s1, e1, o1, c2, s2, e2, o2 = c2, s2, e2, o2, c1, s1, e1, o1
      info_b = '.'
      if sv_type == 'BND':
          if secondary_variant is None:
              info_b = "MISSING"
          else:
              info_b = secondary_variant.get_info_string()
      name = vcf_variant.var_id
      if 'EVENT' in vcf_variant.info:
          name = vcf_variant.info['EVENT']
      return Bedpe(map(str,[c1, max(s1, 0), max(e1, 0), c2, max(s2, 0), max(e2, 0), name,
          vcf_variant.qual, o1, o2, sv_type, vcf_variant.filter, info_a, info_b,
          vcf_variant.get_format_string(), vcf_variant.get_gt_string()]))
  \<close>
  With no primary variant the secondary one is the object \<^verbatim>\<open>bnd_breakpoints\<close> mutates, so
  \<^verbatim>\<open>info_b\<close> is then read from the mutated record. A call with both arguments
  \<^verbatim>\<open>None\<close> fails on \<^verbatim>\<open>None.info\<close>.
\<close>

definition chosen_variant :: "variant option \<Rightarrow> variant option \<Rightarrow> variant option" where
  "chosen_variant primary_variant secondary_variant =
     (case primary_variant of None \<Rightarrow> secondary_variant | Some p \<Rightarrow> Some p)"

definition convert ::
  "variant_methods \<Rightarrow> variant option \<Rightarrow> variant option \<Rightarrow> error + bedpe_fields" where
  "convert m primary_variant secondary_variant =
     (case chosen_variant primary_variant secondary_variant of
        None \<Rightarrow> Inl AttributeError
      | Some vcf_variant \<Rightarrow>
          (case info vcf_variant ''SVTYPE'' of
             None \<Rightarrow> Inl svtype_required
           | Some sv_type \<Rightarrow>
               ebind (if sv_type = PStr ''BND'' then bnd_breakpoints vcf_variant
                      else simple_breakpoints vcf_variant)
                 (\<lambda>(vcf_variant, c1, s1, e1, c2, s2, e2, o1, o2).
               ebind (adjust_coordinate vcf_variant ''CIPOS'' s1 e1) (\<lambda>(s1, e1).
               ebind (adjust_coordinate vcf_variant ''CIEND'' s2 e2) (\<lambda>(s2, e2).
                 let info_a = (if primary_variant = None then ''MISSING''
                               else get_info_string m vcf_variant);
                     (c1, s1, e1, o1, c2, s2, e2, o2) =
                       (if primary_variant = None then (c2, s2, e2, o2, c1, s1, e1, o1)
                        else (c1, s1, e1, o1, c2, s2, e2, o2));
                     info_b =
                       (if sv_type = PStr ''BND'' then
                          (case secondary_variant of
                             None \<Rightarrow> ''MISSING''
                           | Some sec \<Rightarrow>
                               get_info_string m
                                 (if primary_variant = None then vcf_variant else sec))
                        else ''.'');
                     name = (case info vcf_variant ''EVENT'' of
                               None \<Rightarrow> PStr (var_id vcf_variant)
                             | Some ev \<Rightarrow> ev)
                 in Inr \<lparr>b_c1 = c1, b_s1 = max s1 0, b_e1 = max e1 0,
                         b_c2 = c2, b_s2 = max s2 0, b_e2 = max e2 0,
                         b_name = name, b_score = qual vcf_variant, b_o1 = o1, b_o2 = o2,
                         b_svtype = sv_type, b_filter = filter_field vcf_variant,
                         b_info_a = info_a, b_info_b = info_b,
                         b_format = get_format_string m vcf_variant,
                         b_gt = get_gt_string m vcf_variant\<rparr>)))))"

subsection \<open>Example records for the converter\<close>

text \<open>
  Serialisers that print fixed text, and a deletion on chromosome 1 with the given
  position and INFO entries and no samples.
\<close>

definition fixed_serialisers :: variant_methods where
  "fixed_serialisers =
     \<lparr>get_info_string = (\<lambda>v. ''INFO''), get_format_string = (\<lambda>v. ''GT''),
      get_gt_string = (\<lambda>v. ''''), get_var_string = (\<lambda>v fixed_gts. var_id v)\<rparr>"

definition del_record :: "int \<Rightarrow> (string \<times> py_val) list \<Rightarrow> variant" where
  "del_record p kvs =
     \<lparr>chrom = ''1'', pos = PInt p, var_id = ''7'', ref_allele = ''N'', alt = ''<DEL>'',
      qual = ''0.00'', filter_field = ''.'', info = map_of kvs,
      sample_list = [], active_formats = [], gts = (\<lambda>s f. ''.'')\<rparr>"

definition del_without_end :: variant where
  "del_without_end = del_record 100 [(''SVTYPE'', PStr ''DEL''), (''SVLEN'', PStr ''-100'')]"

definition del_with_end :: variant where
  "del_with_end =
     del_record 100 [(''SVTYPE'', PStr ''DEL''), (''SVLEN'', PStr ''-100''),
                     (''END'', PStr ''200'')]"



section \<open>Rewriting a variant as a breakend pair\<close>

text \<open>\<^verbatim>\<open>var.info[k]\<close>: the stored value, or \<^verbatim>\<open>KeyError\<close>.\<close>

definition info_get :: "variant \<Rightarrow> string \<Rightarrow> error + py_val" where
  "info_get var k = (case info var k of None \<Rightarrow> Inl (KeyError k) | Some x \<Rightarrow> Inr x)"

text \<open>\<^verbatim>\<open>del var.info[k]\<close>: removes the entry, or \<^verbatim>\<open>KeyError\<close> when there is none.\<close>

definition info_del :: "variant \<Rightarrow> string \<Rightarrow> error + variant" where
  "info_del var k =
     (case info var k of
        None \<Rightarrow> Inl (KeyError k)
      | Some _ \<Rightarrow> Inr (var\<lparr>info := (info var)(k := None)\<rparr>))"

text \<open>\<^verbatim>\<open>var.info[k] = x\<close>.\<close>

definition info_set :: "variant \<Rightarrow> string \<Rightarrow> py_val \<Rightarrow> variant" where
  "info_set var k x = var\<lparr>info := (info var)(k \<mapsto> x)\<rparr>"

text \<open>The two ALT strings, \<^verbatim>\<open>'N[%s:%s[' % (c, p)\<close> and \<^verbatim>\<open>']%s:%s]N' % (c, p)\<close>.\<close>

definition alt_after :: "string \<Rightarrow> py_val \<Rightarrow> string" where
  "alt_after c p = ''N['' @ c @ '':'' @ py_str p @ ''[''"

definition alt_before :: "string \<Rightarrow> py_val \<Rightarrow> string" where
  "alt_before c p = '']'' @ c @ '':'' @ py_str p @ '']N''"

text \<open>
  \<^verbatim>\<open>
  def to_bnd_strings(var, fixed_gts):
      old_type = var.info['SVTYPE']
      old_id = var.var_id
      old_pos = var.pos
      old_end = var.info['END']
      old_ciend = var.info['CIEND']
      old_cipos = var.info['CIPOS']
      old_cipos95 = var.info['CIPOS95']
      old_ciend95 = var.info['CIEND95']
      #for both ends
      var.info['SVTYPE'] = 'BND'
      var.info['EVENT'] = old_id
      del var.info['SVLEN']
      del var.info['END']
      #var1
      var.var_id = old_id + "_1"
      var.info['MATEID'] = old_id + "_2"
      if old_type == 'DEL':
          var.alt = 'N[%s:%s[' % (var.chrom, old_end)
      else:
          var.alt = ']%s:%s]N' % (var.chrom, old_end)
      var1=var.get_var_string(fixed_gts)
      #var2
      var.var_id = old_id + "_2"
      var.info['MATEID'] = old_id + "_1"
      var.info['CIPOS'] = old_ciend
      var.info['CIEND'] = old_cipos
      var.info['CIPOS95'] = old_ciend95
      var.info['CIEND95'] = old_cipos95
      var.pos = old_end
      var.info['SECONDARY'] = True
      if old_type == 'DEL':
          var.alt = ']%s:%s]N' % (var.chrom, old_pos)
      else:
          var.alt = 'N[%s:%s[' % (var.chrom, old_pos)
      var2=var.get_var_string(fixed_gts)
      return var1, var2
  \<close>
  \<open>to_bnd_records\<close> is the function up to serialisation: it returns the state of \<^verbatim>\<open>var\<close>
  at each of the two calls of \<^verbatim>\<open>get_var_string\<close>. \<open>to_bnd_strings\<close> serialises them.
\<close>

definition to_bnd_records :: "variant \<Rightarrow> error + (variant \<times> variant)" where
  "to_bnd_records var =
     ebind (info_get var ''SVTYPE'') (\<lambda>old_type.
     let old_id = var_id var; old_pos = pos var in
     ebind (info_get var ''END'') (\<lambda>old_end.
     ebind (info_get var ''CIEND'') (\<lambda>old_ciend.
     ebind (info_get var ''CIPOS'') (\<lambda>old_cipos.
     ebind (info_get var ''CIPOS95'') (\<lambda>old_cipos95.
     ebind (info_get var ''CIEND95'') (\<lambda>old_ciend95.
     let var = info_set var ''SVTYPE'' (PStr ''BND'');
         var = info_set var ''EVENT'' (PStr old_id) in
     ebind (info_del var ''SVLEN'') (\<lambda>var.
     ebind (info_del var ''END'') (\<lambda>var.
     let var = var\<lparr>var_id := old_id @ ''_1''\<rparr>;
         var = info_set var ''MATEID'' (PStr (old_id @ ''_2''));
         var = (if old_type = PStr ''DEL'' then var\<lparr>alt := alt_after (chrom var) old_end\<rparr>
                else var\<lparr>alt := alt_before (chrom var) old_end\<rparr>);
         var1 = var;
         var = var\<lparr>var_id := old_id @ ''_2''\<rparr>;
         var = info_set var ''MATEID'' (PStr (old_id @ ''_1''));
         var = info_set var ''CIPOS'' old_ciend;
         var = info_set var ''CIEND'' old_cipos;
         var = info_set var ''CIPOS95'' old_ciend95;
         var = info_set var ''CIEND95'' old_cipos95;
         var = var\<lparr>pos := old_end\<rparr>;
         var = info_set var ''SECONDARY'' PTrue;
         var = (if old_type = PStr ''DEL'' then var\<lparr>alt := alt_before (chrom var) old_pos\<rparr>
                else var\<lparr>alt := alt_after (chrom var) old_pos\<rparr>);
         var2 = var
     in Inr (var1, var2)))))))))"

definition to_bnd_strings ::
  "variant_methods \<Rightarrow> variant \<Rightarrow> bool \<Rightarrow> error + (string \<times> string)" where
  "to_bnd_strings m var fixed_gts =
     ebind (to_bnd_records var) (\<lambda>(var1, var2).
       Inr (get_var_string m var1 fixed_gts, get_var_string m var2 fixed_gts))"

subsection \<open>Example records for the breakend rewrite\<close>

definition ci_fields :: "(string \<times> py_val) list" where
  "ci_fields =
     [(''CIPOS'', PStr ''-2,2''), (''CIEND'', PStr ''-3,3''),
      (''CIPOS95'', PStr ''-1,1''), (''CIEND95'', PStr ''0,0'')]"

definition del_without_svlen :: variant where
  "del_without_svlen =
     del_record 100 ([(''SVTYPE'', PStr ''DEL''), (''END'', PStr ''200'')] @ ci_fields)"

definition del_marked_secondary :: variant where
  "del_marked_secondary =
     del_record 100 ([(''SVTYPE'', PStr ''DEL''), (''END'', PStr ''200''),
                      (''SVLEN'', PStr ''-100''), (''SECONDARY'', PTrue)] @ ci_fields)"

definition del_100_200 :: variant where
  "del_100_200 =
     del_record 100 ([(''SVTYPE'', PStr ''DEL''), (''END'', PStr ''200''),
                      (''SVLEN'', PStr ''-100'')] @ ci_fields)"

section \<open>Copy-number records and quantile trimming\<close>

text \<open>
  \<^verbatim>\<open>CN_rec = namedtuple('CN_rec', 'var_id sample svtype svlen AF GT CN log_len log2r')\<close>.
  The field \<^verbatim>\<open>svtype\<close> is whatever \<^verbatim>\<open>var.info['SVTYPE']\<close> holds, \<^verbatim>\<open>AF\<close> whatever
  \<^verbatim>\<open>var.info['AF']\<close> holds, \<^verbatim>\<open>GT\<close> and \<^verbatim>\<open>CN\<close> are the strings of the sample's
  format fields; the other three are floats.
\<close>

record CN_rec =
  cn_var_id :: string
  cn_sample :: string
  cn_svtype :: py_val
  cn_svlen :: real
  cn_AF :: py_val
  cn_GT :: string
  cn_CN :: string
  cn_log_len :: real
  cn_log2r :: real








subsection \<open>Example groups for the trimming\<close>




section \<open>Read-depth support tests\<close>

text \<open>
  \<^verbatim>\<open>float(s)\<close> reads a number from a string or raises \<^verbatim>\<open>ValueError\<close>. Floats being
  idealised as reals, the reading is a parameter \<open>flt\<close> of every function below:
  \<open>flt s = None\<close> when \<^verbatim>\<open>float(s)\<close> raises, and \<open>Some x\<close> for the number read.
\<close>

definition not_a_float :: error where
  "not_a_float = ValueError ''could not convert string to float''"

definition py_float :: "(string \<Rightarrow> real option) \<Rightarrow> string \<Rightarrow> error + real" where
  "py_float flt s = (case flt s of None \<Rightarrow> Inl not_a_float | Some x \<Rightarrow> Inr x)"

text \<open>
  The copy number of a sample, as both frequency tests read it:
  \<^verbatim>\<open>
  if (var.chrom == 'X' or var.chrom == 'Y') and gender[s] == 1:
      cn = float(var.genotype(s).get_format('CN')) * 2
  else:
      cn = float(var.genotype(s).get_format('CN'))
  \<close>
  \<^verbatim>\<open>gender[s]\<close> is looked up only on a sex chromosome and raises \<^verbatim>\<open>KeyError\<close> for an
  unknown sample.
\<close>

definition sample_cn ::
  "(string \<Rightarrow> real option) \<Rightarrow> variant \<Rightarrow> (string \<rightharpoonup> int) \<Rightarrow> string \<Rightarrow> error + real" where
  "sample_cn flt var gender s =
     (if chrom var = ''X'' \<or> chrom var = ''Y'' then
        (case gender s of
           None \<Rightarrow> Inl (KeyError s)
         | Some g \<Rightarrow>
             if g = 1 then ebind (py_float flt (gts var s ''CN'')) (\<lambda>c. Inr (c * 2))
             else py_float flt (gts var s ''CN''))
      else py_float flt (gts var s ''CN''))"

text \<open>
  \<^verbatim>\<open>np.median\<close>: the middle of the sorted data, or the mean of the two middle values.
  It is called on non-empty data only; on no data there is no value.
\<close>

definition median :: "real list \<Rightarrow> real option" where
  "median xs =
     (if xs = [] then None
      else
        let ys = sort xs; n = length ys
        in if even n then Some ((ys ! (n div 2 - 1) + ys ! (n div 2)) / 2)
           else Some (ys ! (n div 2)))"

text \<open>
  \<^verbatim>\<open>
  def mad(arr):
      arr = np.ma.array(arr).compressed()
      med = np.median(arr)
      return np.median(np.abs(arr - med))
  \<close>
\<close>

definition mad :: "real list \<Rightarrow> real option" where
  "mad arr =
     (case median arr of
        None \<Rightarrow> None
      | Some med \<Rightarrow> median (map (\<lambda>x. \<bar>x - med\<bar>) arr))"

subsection \<open>The low-frequency test\<close>

text \<open>
  \<^verbatim>\<open>
  def has_low_freq_depth_support(var, gender, exclude, writedir=None):
      mad_threshold = 2
      mad_quorum = 0.5
      absolute_cn_diff = 0.5
      hom_ref_cn = []
      het_cn = []
      hom_alt_cn = []
      for s in var.sample_list:
          if s in exclude:
              continue
          if (var.chrom == 'X' or var.chrom == 'Y') and gender[s] == 1:
              cn = float(var.genotype(s).get_format('CN')) * 2
          else:
              cn = float(var.genotype(s).get_format('CN'))
          if var.genotype(s).get_format('GT') == '0/0':
              hom_ref_cn.append(cn)
          elif var.genotype(s).get_format('GT') == '0/1':
              het_cn.append(cn)
          elif var.genotype(s).get_format('GT') == '1/1':
              hom_alt_cn.append(cn)
      if len(hom_ref_cn) > 0:
          cn_mean = np.mean(hom_ref_cn)
          cn_stdev = np.std(hom_ref_cn)
          cn_median = np.median(hom_ref_cn)
          cn_mad = mad(hom_ref_cn)
      else:
          cn_mean = None
          cn_stdev = None
          cn_median = None
          cn_mad = None
      # (writedir is None in every call: nothing is written)
      if (len(hom_ref_cn) == 0 or
          len(het_cn + hom_alt_cn) == 0):
          return False
      q = 0
      for cn in het_cn + hom_alt_cn:
          resid = cn - cn_median
          if var.info['SVTYPE'] == 'DEL':
              resid = -resid
          if (resid > (cn_mad * mad_threshold) and
              resid > absolute_cn_diff):
              q += 1
      if float(q)/len(het_cn + hom_alt_cn) > mad_quorum:
          return True
      else:
          return False
  \<close>
  \<^verbatim>\<open>cn_mean\<close> and \<^verbatim>\<open>cn_stdev\<close> only feed the diagnostic file, which is written when
  \<^verbatim>\<open>writedir\<close> is given; the classifier never gives it, and the model leaves it out.
\<close>

fun collect_cn ::
  "(string \<Rightarrow> real option) \<Rightarrow> variant \<Rightarrow> (string \<rightharpoonup> int) \<Rightarrow> string list \<Rightarrow>
   string list \<Rightarrow> real list \<times> real list \<times> real list \<Rightarrow>
   error + (real list \<times> real list \<times> real list)" where
  "collect_cn flt var gender exclude [] acc = Inr acc"
| "collect_cn flt var gender exclude (s # ss) (hom_ref_cn, het_cn, hom_alt_cn) =
     (if s \<in> set exclude then
        collect_cn flt var gender exclude ss (hom_ref_cn, het_cn, hom_alt_cn)
      else
        ebind (sample_cn flt var gender s) (\<lambda>cn.
          if gts var s ''GT'' = ''0/0'' then
            collect_cn flt var gender exclude ss (hom_ref_cn @ [cn], het_cn, hom_alt_cn)
          else if gts var s ''GT'' = ''0/1'' then
            collect_cn flt var gender exclude ss (hom_ref_cn, het_cn @ [cn], hom_alt_cn)
          else if gts var s ''GT'' = ''1/1'' then
            collect_cn flt var gender exclude ss (hom_ref_cn, het_cn, hom_alt_cn @ [cn])
          else collect_cn flt var gender exclude ss (hom_ref_cn, het_cn, hom_alt_cn)))"

fun tally_mad :: "variant \<Rightarrow> real \<Rightarrow> real \<Rightarrow> real list \<Rightarrow> nat \<Rightarrow> error + nat" where
  "tally_mad var cn_median cn_mad [] q = Inr q"
| "tally_mad var cn_median cn_mad (cn # cns) q =
     ebind (info_get var ''SVTYPE'') (\<lambda>svtype.
       let resid = cn - cn_median;
           resid = (if svtype = PStr ''DEL'' then - resid else resid)
       in if resid > cn_mad * 2 \<and> resid > 1 / 2
          then tally_mad var cn_median cn_mad cns (q + 1)
          else tally_mad var cn_median cn_mad cns q)"

definition has_low_freq_depth_support ::
  "(string \<Rightarrow> real option) \<Rightarrow> variant \<Rightarrow> (string \<rightharpoonup> int) \<Rightarrow> string list \<Rightarrow> error + bool" where
  "has_low_freq_depth_support flt var gender exclude =
     ebind (collect_cn flt var gender exclude (sample_list var) ([], [], []))
       (\<lambda>(hom_ref_cn, het_cn, hom_alt_cn).
          case (median hom_ref_cn, mad hom_ref_cn) of
            (Some cn_median, Some cn_mad) \<Rightarrow>
              if length (het_cn @ hom_alt_cn) = 0 then Inr False
              else
                ebind (tally_mad var cn_median cn_mad (het_cn @ hom_alt_cn) 0) (\<lambda>q.
                  Inr (real q / real (length (het_cn @ hom_alt_cn)) > 1 / 2))
          | _ \<Rightarrow> Inr False)"

subsection \<open>The high-frequency test\<close>

text \<open>
  \<^verbatim>\<open>scipy.stats.linregress\<close> on the rows \<open>x\<close> and \<open>y\<close> of a two-row array, as far as
  the test uses it: with the biased covariances \<open>ssxm\<close>, \<open>ssxym\<close>, \<open>ssym\<close> of the data,
  the slope is \<open>ssxym / ssxm\<close> and the correlation is \<open>ssxym / sqrt (ssxm * ssym)\<close>,
  taken as \<open>0\<close> when the denominator is zero and kept within \<open>[-1, 1]\<close>.
\<close>

definition mean :: "real list \<Rightarrow> real" where
  "mean xs = sum_list xs / real (length xs)"

definition linregress :: "(real \<times> real) list \<Rightarrow> real \<times> real" where
  "linregress rd =
     (let x = map fst rd; y = map snd rd;
          xmean = mean x; ymean = mean y;
          ssxm = mean (map (\<lambda>a. (a - xmean) * (a - xmean)) x);
          ssxym = mean (map (\<lambda>(a, b). (a - xmean) * (b - ymean)) rd);
          ssym = mean (map (\<lambda>b. (b - ymean) * (b - ymean)) y);
          r_num = ssxym;
          r_den = sqrt (ssxm * ssym);
          r = (if r_den = 0 then 0
               else let r = r_num / r_den in if r > 1 then 1 else if r < - 1 then - 1 else r);
          slope = r_num / ssxm
      in (slope, r))"

text \<open>
  \<^verbatim>\<open>
  def has_high_freq_depth_support(var, gender, exclude, slope_threshold,
                                  rsquared_threshold, writedir=None):
      if 'CN' in var.active_formats:
          # allele balance list
          ab_list = []
          for s in var.sample_list:
              # if s in exclude:
              #     continue
              ab_str = var.genotype(s).get_format('AB')
              if ab_str == '.':
                  ab_list.append(-1)
                  continue
              ab_list.append(float(ab_str))
          # populate read-depth list, accounting for sample gender
          rd_list = []
          for s in var.sample_list:
              # if s in exclude:
              #     continue
              if (var.chrom == 'X' or var.chrom == 'Y') and gender[s] == 1:
                  rd_list.append(float(var.genotype(s).get_format('CN')) * 2)
              else:
                  rd_list.append(float(var.genotype(s).get_format('CN')))
          rd = np.array([ab_list, rd_list])
          # remove missing genotypes
          rd = rd[:, rd[0]!=-1]
          # ensure non-uniformity in genotype and read depth
          if len(np.unique(rd[0,:])) > 1 and len(np.unique(rd[1,:])) > 1:
              # calculate regression
              (slope, intercept, r_value, p_value, std_err) = stats.linregress(rd)
              # (writedir is None in every call: nothing is written)
              if r_value ** 2 < rsquared_threshold:
                  return False
              if var.info['SVTYPE'] == 'DEL':
                  slope = -slope
              if slope < slope_threshold:
                  return False
              return True
      return False
  \<close>
  The argument \<^verbatim>\<open>exclude\<close> is never read: both checks are commented out.
\<close>

definition sample_ab :: "(string \<Rightarrow> real option) \<Rightarrow> variant \<Rightarrow> string \<Rightarrow> error + real" where
  "sample_ab flt var s =
     (let ab_str = gts var s ''AB''
      in if ab_str = ''.'' then Inr (- 1) else py_float flt ab_str)"

definition has_high_freq_depth_support ::
  "(string \<Rightarrow> real option) \<Rightarrow> variant \<Rightarrow> (string \<rightharpoonup> int) \<Rightarrow> string list \<Rightarrow>
   real \<Rightarrow> real \<Rightarrow> error + bool" where
  "has_high_freq_depth_support flt var gender exclude slope_threshold rsquared_threshold =
     (if ''CN'' \<in> set (active_formats var) then
        ebind (emap (sample_ab flt var) (sample_list var)) (\<lambda>ab_list.
        ebind (emap (sample_cn flt var gender) (sample_list var)) (\<lambda>rd_list.
          let rd = zip ab_list rd_list;
              rd = filter (\<lambda>p. fst p \<noteq> - 1) rd
          in if length (remdups (map fst rd)) > 1 \<and> length (remdups (map snd rd)) > 1 then
               (case linregress rd of
                  (slope, r_value) \<Rightarrow>
                    if r_value * r_value < rsquared_threshold then Inr False
                    else
                      ebind (info_get var ''SVTYPE'') (\<lambda>svtype.
                        let slope = (if svtype = PStr ''DEL'' then - slope else slope)
                        in if slope < slope_threshold then Inr False else Inr True))
             else Inr False))
      else Inr False)"

subsection \<open>The low-frequency test in the words of its description\<close>







subsection \<open>Example records with samples\<close>

text \<open>
  A reading of the decimal strings used in the examples, and a record on the given
  chromosome with the given INFO entries and samples, each sample with its format
  fields (a field that is not listed reads \<open>.\<close>).
\<close>

definition decimals :: "string \<Rightarrow> real option" where
  "decimals =
     map_of [(''0'', 0), (''0.5'', 1 / 2), (''0.75'', 3 / 4), (''1'', 1), (''1.9'', 19 / 10),
             (''2'', 2), (''3.9'', 39 / 10), (''8'', 8), (''-500'', - 500), (''-5000'', - 5000), (''5000'', 5000)]"

definition sample_record ::
  "string \<Rightarrow> (string \<times> py_val) list \<Rightarrow> (string \<times> (string \<times> string) list) list \<Rightarrow> variant" where
  "sample_record c kvs samples =
     \<lparr>chrom = c, pos = PInt 100, var_id = ''7'', ref_allele = ''N'', alt = ''<DEL>'',
      qual = ''0.00'', filter_field = ''.'', info = map_of kvs,
      sample_list = map fst samples, active_formats = [''GT'', ''CN'', ''AB''],
      gts = (\<lambda>s f. case map_of samples s of
                      None \<Rightarrow> ''.''
                    | Some fs \<Rightarrow> (case map_of fs f of None \<Rightarrow> ''.'' | Some x \<Rightarrow> x))\<rparr>"

definition del_info :: "(string \<times> py_val) list" where
  "del_info =
     [(''SVTYPE'', PStr ''DEL''), (''SVLEN'', PStr ''-5000''), (''END'', PStr ''5100''),
      (''AF'', PStr ''0.5'')] @ ci_fields"



subsection \<open>The naive-Bayes test\<close>

text \<open>
  The fitted model. A regression \<^verbatim>\<open>offset ~ log_len\<close> predicts
  \<open>intercept + slope * log_len\<close> for a row. The table \<^verbatim>\<open>params\<close> has one row per
  (sample, svtype) with the means and standard deviations of the three genotypes; a
  genotype the training data never showed for the sample leaves NaN, written \<open>None\<close>.
\<close>

record fit =
  intercept :: real
  slope :: real

definition predict :: "fit \<Rightarrow> CN_rec \<Rightarrow> real" where
  "predict f r = intercept f + slope f * cn_log_len r"

record dist_row =
  d_sample :: string
  d_svtype :: py_val
  mean0 :: "real option"
  mean1 :: "real option"
  mean2 :: "real option"
  sd0 :: "real option"
  sd1 :: "real option"
  sd2 :: "real option"

text \<open>
  Arithmetic on values that may be NaN: NaN propagates through a sum and a product,
  and every comparison with NaN is false.
\<close>

fun nan_mult :: "real option \<Rightarrow> real option \<Rightarrow> real option" where
  "nan_mult (Some a) (Some b) = Some (a * b)"
| "nan_mult _ _ = None"

fun nan_add :: "real option \<Rightarrow> real option \<Rightarrow> real option" where
  "nan_add (Some a) (Some b) = Some (a + b)"
| "nan_add _ _ = None"

fun nan_prod :: "real option list \<Rightarrow> real option" where
  "nan_prod [] = Some 1"
| "nan_prod (x # xs) = nan_mult x (nan_prod xs)"

fun nan_greater :: "real option \<Rightarrow> real option \<Rightarrow> bool" where
  "nan_greater (Some a) (Some b) = (a > b)"
| "nan_greater _ _ = False"

text \<open>
  \<^verbatim>\<open>
  def lld(xx, mean, sd):
      ll = 1 / sd * math.exp(-(xx-mean) * (xx-mean) / (2*sd*sd))
      return ll
  \<close>
  The row values are Python floats, so a standard deviation of zero makes \<^verbatim>\<open>1 / sd\<close>
  raise \<^verbatim>\<open>ZeroDivisionError\<close>; a NaN mean or deviation gives NaN.
\<close>

definition lld :: "real \<Rightarrow> real option \<Rightarrow> real option \<Rightarrow> error + real option" where
  "lld xx mean' sd =
     (case sd of
        None \<Rightarrow> Inr None
      | Some sd \<Rightarrow>
          if sd = 0 then Inl ZeroDivisionError
          else
            (case mean' of
               None \<Rightarrow> Inr None
             | Some mean' \<Rightarrow>
                 Inr (Some (1 / sd * exp (- (xx - mean') * (xx - mean') / (2 * sd * sd))))))"

text \<open>
  \<^verbatim>\<open>math.log\<close> raises \<^verbatim>\<open>ValueError\<close> outside its domain; \<^verbatim>\<open>math.log(x, 2)\<close> is the
  logarithm to base 2.
\<close>

definition math_domain_error :: error where
  "math_domain_error = ValueError ''math domain error''"

definition math_log :: "real \<Rightarrow> error + real" where
  "math_log x = (if x \<le> 0 then Inl math_domain_error else Inr (ln x))"

definition math_log2 :: "real \<Rightarrow> error + real" where
  "math_log2 x = (if x \<le> 0 then Inl math_domain_error else Inr (log 2 x))"

text \<open>\<^verbatim>\<open>float(x)\<close> on a stored value: \<^verbatim>\<open>float(True)\<close> is \<open>1.0\<close>.\<close>

fun py_float_val :: "(string \<Rightarrow> real option) \<Rightarrow> py_val \<Rightarrow> error + real" where
  "py_float_val flt (PStr s) = py_float flt s"
| "py_float_val flt (PInt n) = Inr (real_of_int n)"
| "py_float_val flt PTrue = Inr 1"

text \<open>
  The body of the sample loop of \<^verbatim>\<open>has_cn_support_by_nb\<close>, with \<open>epsilon = 0.1\<close>:
  \<^verbatim>\<open>
  cn = var.genotype(s).get_format('CN')
  log2r = math.log((float(cn)+epsilon)/2, 2)  # to avoid log(0)
  test_set.append(CN_rec(var.var_id, s, var.info['SVTYPE'], abs(float(var.info['SVLEN'])),
     var.info['AF'], var.genotype(s).get_format('GT'),  cn ,
     math.log(abs(float(var.info['SVLEN']))), log2r))
  \<close>
\<close>

definition make_cn_rec :: "(string \<Rightarrow> real option) \<Rightarrow> variant \<Rightarrow> string \<Rightarrow> error + CN_rec" where
  "make_cn_rec flt var s =
     (let cn = gts var s ''CN'' in
      ebind (py_float flt cn) (\<lambda>c.
      ebind (math_log2 ((c + 1 / 10) / 2)) (\<lambda>log2r.
      ebind (info_get var ''SVTYPE'') (\<lambda>svtype.
      ebind (info_get var ''SVLEN'') (\<lambda>l.
      ebind (py_float_val flt l) (\<lambda>svlen.
      ebind (info_get var ''AF'') (\<lambda>af.
      ebind (math_log \<bar>svlen\<bar>) (\<lambda>log_len.
        Inr \<lparr>cn_var_id = var_id var, cn_sample = s, cn_svtype = svtype, cn_svlen = \<bar>svlen\<bar>,
             cn_AF = af, cn_GT = gts var s ''GT'', cn_CN = cn, cn_log_len = log_len,
             cn_log2r = log2r\<rparr>))))))))"

text \<open>
  A left merge of pandas: every left row is paired with each right row that has the
  same key, in order, and with a row of NaN when there is none.
\<close>

definition left_merge :: "('a \<Rightarrow> 'b \<Rightarrow> bool) \<Rightarrow> 'b \<Rightarrow> 'a list \<Rightarrow> 'b list \<Rightarrow> ('a \<times> 'b) list" where
  "left_merge same_key nan_row left right =
     concat (map (\<lambda>l. case filter (same_key l) right of
                        [] \<Rightarrow> [(l, nan_row)]
                      | ms \<Rightarrow> map (\<lambda>r. (l, r)) ms) left)"

text \<open>
  \<^verbatim>\<open>
  def rd_support_nb(temp, p_cnv, frac_BND):
      tr = pd.DataFrame({'p0' : [1.0, 0.1, 0.0], 'p1' : [0.0, 0.45, 0.50],
                         'p2' : [0.0, 0.45, 0.5], 'GT' : ["0/0", "0/1", "1/1"]})
      temp = pd.merge(temp, tr, on='GT', how='left')
      temp['p_mix'] = temp['lld0'] * temp['p0'] + temp['lld1'] * temp['p1']
                      + temp['lld2'] * temp['p2']
      return  p_cnv * np.prod(temp['p_mix']) > (1- p_cnv) * np.prod(temp['lld0'])
  \<close>
  A row of \<open>temp\<close> is its genotype with its three likelihoods. The keys of \<open>tr\<close> are
  distinct, so the merge is a lookup that leaves NaN for any other genotype.
\<close>

definition tr :: "(string \<times> real \<times> real \<times> real) list" where
  "tr = [(''0/0'', 1, 0, 0), (''0/1'', 1 / 10, 45 / 100, 45 / 100), (''1/1'', 0, 1 / 2, 1 / 2)]"

definition priors :: "string \<Rightarrow> real option \<times> real option \<times> real option" where
  "priors gt =
     (case map_of tr gt of
        None \<Rightarrow> (None, None, None)
      | Some (p0, p1, p2) \<Rightarrow> (Some p0, Some p1, Some p2))"

definition p_mix :: "string \<times> real option \<times> real option \<times> real option \<Rightarrow> real option" where
  "p_mix row =
     (case row of (gt, lld0, lld1, lld2) \<Rightarrow>
        (case priors gt of (p0, p1, p2) \<Rightarrow>
           nan_add (nan_add (nan_mult lld0 p0) (nan_mult lld1 p1)) (nan_mult lld2 p2)))"

definition rd_support_nb ::
  "(string \<times> real option \<times> real option \<times> real option) list \<Rightarrow> real \<Rightarrow> bool" where
  "rd_support_nb temp p_cnv =
     nan_greater (nan_mult (Some p_cnv) (nan_prod (map p_mix temp)))
                 (nan_mult (Some (1 - p_cnv)) (nan_prod (map (\<lambda>row. fst (snd row)) temp)))"

text \<open>
  \<^verbatim>\<open>
  def has_cn_support_by_nb(var, gender, exclude, het_del_fit, hom_del_fit, params,
                           frac_BND = 0.25, p_cnv = 0.5, epsilon=0.1):
      test_set = list()
      for s in var.sample_list:
          if s in exclude:
              continue
          cn = var.genotype(s).get_format('CN')
          log2r = math.log((float(cn)+epsilon)/2, 2)  # to avoid log(0)
          test_set.append(CN_rec(...))
      test_set = pd.DataFrame(data = test_set, columns=CN_rec._fields)
      shomd=test_set[(test_set.svtype=="DEL") & (test_set.GT=="1/1") & (test_set.svlen<1000)]
      shetd=test_set[(test_set.svtype=="DEL") & (test_set.GT=="0/1") & (test_set.svlen<1000)]
      shomd['log2r_adj']=shomd['log2r']-hom_del_fit.predict(shomd)
      shetd['log2r_adj']=shetd['log2r']-het_del_fit.predict(shetd)
      small_dels=shomd.append(shetd)
      small_dels=small_dels[[...]]
      df1=test_set[(test_set.svtype!="DEL") | (test_set.GT=="0/0") | (test_set.svlen>=1000)]
      df1['log2r_adj']=df1['log2r']
      df1=df1.append(small_dels)
      df1=df1[df1.GT!="0/0"]
      mm=pd.merge(df1, params, how='left')
      mm['lld0'] = mm.apply(lambda row:lld(row["log2r_adj"], row["mean0"],row["sd0"]), axis=1)
      mm['lld1'] = mm.apply(lambda row:lld(row["log2r_adj"], row["mean1"],row["sd1"]), axis=1)
      mm['lld2'] = mm.apply(lambda row:lld(row["log2r_adj"], row["mean2"],row["sd2"]), axis=1)
      return  rd_support_nb(mm, p_cnv, frac_BND)
  \<close>
  A row of \<open>df1\<close> is a record with its \<^verbatim>\<open>log2r_adj\<close>. The merge with \<^verbatim>\<open>params\<close> is on
  the columns the two frames share, \<^verbatim>\<open>sample\<close> and \<^verbatim>\<open>svtype\<close>. The arguments
  \<^verbatim>\<open>gender\<close> and \<^verbatim>\<open>frac_BND\<close> are never read; \<^verbatim>\<open>p_cnv\<close> is \<open>0.5\<close> in the only call.
\<close>

definition small_del :: "string \<Rightarrow> CN_rec \<Rightarrow> bool" where
  "small_del gt r = (cn_svtype r = PStr ''DEL'' \<and> cn_GT r = gt \<and> cn_svlen r < 1000)"

definition nan_dist :: dist_row where
  "nan_dist =
     \<lparr>d_sample = [], d_svtype = PStr [], mean0 = None, mean1 = None, mean2 = None,
      sd0 = None, sd1 = None, sd2 = None\<rparr>"

definition same_sample_svtype :: "CN_rec \<times> real \<Rightarrow> dist_row \<Rightarrow> bool" where
  "same_sample_svtype row p = (d_sample p = cn_sample (fst row) \<and> d_svtype p = cn_svtype (fst row))"

definition has_cn_support_by_nb ::
  "(string \<Rightarrow> real option) \<Rightarrow> variant \<Rightarrow> string list \<Rightarrow> fit \<Rightarrow> fit \<Rightarrow> dist_row list \<Rightarrow>
   real \<Rightarrow> error + bool" where
  "has_cn_support_by_nb flt var exclude het_del_fit hom_del_fit params p_cnv =
     ebind (emap (make_cn_rec flt var) (filter (\<lambda>s. s \<notin> set exclude) (sample_list var)))
       (\<lambda>test_set.
     let shomd = filter (small_del ''1/1'') test_set;
         shetd = filter (small_del ''0/1'') test_set;
         shomd = map (\<lambda>r. (r, cn_log2r r - predict hom_del_fit r)) shomd;
         shetd = map (\<lambda>r. (r, cn_log2r r - predict het_del_fit r)) shetd;
         small_dels = shomd @ shetd;
         df1 = filter (\<lambda>r. cn_svtype r \<noteq> PStr ''DEL'' \<or> cn_GT r = ''0/0'' \<or> cn_svlen r \<ge> 1000)
                 test_set;
         df1 = map (\<lambda>r. (r, cn_log2r r)) df1;
         df1 = df1 @ small_dels;
         df1 = filter (\<lambda>row. cn_GT (fst row) \<noteq> ''0/0'') df1;
         mm = left_merge same_sample_svtype nan_dist df1 params
     in
     ebind (emap (\<lambda>(row, p). lld (snd row) (mean0 p) (sd0 p)) mm) (\<lambda>lld0.
     ebind (emap (\<lambda>(row, p). lld (snd row) (mean1 p) (sd1 p)) mm) (\<lambda>lld1.
     ebind (emap (\<lambda>(row, p). lld (snd row) (mean2 p) (sd2 p)) mm) (\<lambda>lld2.
       Inr (rd_support_nb
              (zip (map (\<lambda>(row, p). cn_GT (fst row)) mm) (zip lld0 (zip lld1 lld2)))
              p_cnv)))))"

subsection \<open>The naive-Bayes test in the words of its description\<close>








subsection \<open>Example model and records for the naive-Bayes test\<close>



definition flat_fit :: fit where
  "flat_fit = \<lparr>intercept = 0, slope = 0\<rparr>"


subsection \<open>Records that differ in an excluded sample only\<close>

text \<open>
  Two records agree outside the exclude set when they differ at most in the format
  fields of excluded samples.
\<close>

definition agree_outside :: "string list \<Rightarrow> variant \<Rightarrow> variant \<Rightarrow> bool" where
  "agree_outside exclude var var' =
     (chrom var' = chrom var \<and> pos var' = pos var \<and> var_id var' = var_id var \<and>
      ref_allele var' = ref_allele var \<and> alt var' = alt var \<and> qual var' = qual var \<and>
      filter_field var' = filter_field var \<and> info var' = info var \<and>
      sample_list var' = sample_list var \<and> active_formats var' = active_formats var \<and>
      (\<forall>s. s \<notin> set exclude \<longrightarrow> gts var' s = gts var s))"

text \<open>
  A deletion with the hom-ref sample \<open>B\<close> and the excluded sample \<open>X\<close>: once with no
  allele balance for \<open>X\<close>, once with \<open>X\<close> as a hom-alt sample at copy number 0.
\<close>

definition del_excluded_missing :: variant where
  "del_excluded_missing =
     sample_record ''1'' del_info
       [(''B'', [(''GT'', ''0/0''), (''CN'', ''2''), (''AB'', ''0'')]),
        (''X'', [(''GT'', ''./.''), (''CN'', ''2''), (''AB'', ''.'')])]"

definition del_excluded_hom_alt :: variant where
  "del_excluded_hom_alt =
     sample_record ''1'' del_info
       [(''B'', [(''GT'', ''0/0''), (''CN'', ''2''), (''AB'', ''0'')]),
        (''X'', [(''GT'', ''1/1''), (''CN'', ''0''), (''AB'', ''1'')])]"

section \<open>Mobile-element annotation\<close>

text \<open>
  A feature of the annotation index is the list \<^verbatim>\<open>[start, end, class, ...]\<close> made from a
  line of the BED file; the code reads its first three entries. \<^verbatim>\<open>ae_dict\<close> maps a
  chromosome to its features in file order.
\<close>

type_synonym feature = "int \<times> int \<times> string"

definition f_start :: "feature \<Rightarrow> int" where "f_start f = fst f"
definition f_end :: "feature \<Rightarrow> int" where "f_end f = fst (snd f)"
definition f_class :: "feature \<Rightarrow> string" where "f_class f = snd (snd f)"

text \<open>
  \<^verbatim>\<open>
  def collapse_bed_records(bed_list):
      bed_list_sorted = sorted(bed_list, key=itemgetter(1))
      collapsed_bed_list = []
      i = 0
      curr_rec = bed_list_sorted[i]
      while i < len(bed_list_sorted):
          # end at last element in list
          if i == len(bed_list_sorted) - 1:
              collapsed_bed_list.append(copy.copy(curr_rec))
              break
          # load next entry
          next_rec = bed_list_sorted[i + 1]
          # merge is overlap
          if curr_rec[1] >= next_rec[0]:
              curr_rec[1] = next_rec[1]
              i += 1
          # write out if no overlap
          else:
              collapsed_bed_list.append(copy.copy(curr_rec))
              i += 1
              curr_rec = bed_list_sorted[i]
      return collapsed_bed_list
  \<close>
  The elements of \<^verbatim>\<open>bed_list\<close> are the feature objects of \<^verbatim>\<open>ae_dict\<close> themselves, and
  \<^verbatim>\<open>curr_rec[1] = next_rec[1]\<close> writes into one of them. The model therefore passes
  the chromosome's feature list as a store, \<^verbatim>\<open>bed_list\<close> as the positions of its
  elements in that store, and returns the updated store with the collapsed copies.
  The loop keeps \<open>cur\<close> while it merges and walks through the rest of the sorted list.
\<close>

fun collapse_loop ::
  "feature list \<Rightarrow> nat \<Rightarrow> nat list \<Rightarrow> feature list \<Rightarrow> feature list \<times> feature list" where
  "collapse_loop store cur [] collapsed = (store, collapsed @ [store ! cur])"
| "collapse_loop store cur (nxt # rest) collapsed =
     (if f_end (store ! cur) \<ge> f_start (store ! nxt) then
        collapse_loop
          (store[cur := (f_start (store ! cur), f_end (store ! nxt), f_class (store ! cur))])
          cur rest collapsed
      else collapse_loop store nxt rest (collapsed @ [store ! cur]))"

definition collapse_bed_records ::
  "feature list \<Rightarrow> nat list \<Rightarrow> error + (feature list \<times> feature list)" where
  "collapse_bed_records store bed_list =
     (case sort_key (\<lambda>i. f_end (store ! i)) bed_list of
        [] \<Rightarrow> Inl IndexError
      | cur # rest \<Rightarrow> Inr (collapse_loop store cur rest []))"

text \<open>
  \<^verbatim>\<open>
  def annotation_intersect(var, ae_dict, threshold):
      best_frac_overlap = 0
      best_feature = ''
      slop = 0
      # dictionary with number of bases of overlap for each class
      class_overlap = {}
      # first check for reciprocal overlap
      if var.chrom in ae_dict:
          var_start = var.pos
          var_end = int(var.info['END'])
          i = 0
          while 1:
              # bail if end of dict
              if i >= len(ae_dict[var.chrom]):
                  break
              feature = ae_dict[var.chrom][i]
              if feature[0] - slop < var_end:
                  if feature[1] + slop > var_start:
                      try:
                          class_overlap[feature[2]].append(feature)
                      except KeyError:
                          class_overlap[feature[2]] = [feature]
              else:
                  break
              i += 1
          for me_class in class_overlap:
              class_overlap[me_class] = collapse_bed_records(class_overlap[me_class])
              frac_overlap = reciprocal_overlap([var_start, var_end], class_overlap[me_class])
              if frac_overlap > best_frac_overlap:
                  best_frac_overlap = frac_overlap
                  best_feature = me_class
          if best_frac_overlap >= threshold:
              return best_feature
      return None
  \<close>
  \<^verbatim>\<open>class_overlap\<close> is kept as an association list in the order in which the classes
  were first met. Python 2 iterates over a dictionary in hash order; the order matters
  only when two classes overlap by exactly the same fraction, where the first one met in
  the iteration is kept. \<^verbatim>\<open>var.pos\<close> is the integer \<^verbatim>\<open>Variant\<close> parsed.
\<close>

fun add_overlap :: "(string \<times> nat list) list \<Rightarrow> string \<Rightarrow> nat \<Rightarrow> (string \<times> nat list) list" where
  "add_overlap [] c i = [(c, [i])]"
| "add_overlap ((c', is) # co) c i =
     (if c' = c then (c', is @ [i]) # co else (c', is) # add_overlap co c i)"

fun scan_features ::
  "int \<Rightarrow> int \<Rightarrow> feature list \<Rightarrow> nat \<Rightarrow> (string \<times> nat list) list \<Rightarrow> (string \<times> nat list) list" where
  "scan_features var_start var_end [] i class_overlap = class_overlap"
| "scan_features var_start var_end (feature # fs) i class_overlap =
     (if f_start feature - 0 < var_end then
        (if f_end feature + 0 > var_start
         then scan_features var_start var_end fs (i + 1)
                (add_overlap class_overlap (f_class feature) i)
         else scan_features var_start var_end fs (i + 1) class_overlap)
      else class_overlap)"

fun best_class ::
  "int \<Rightarrow> int \<Rightarrow> (string \<times> nat list) list \<Rightarrow> feature list \<Rightarrow> real \<times> string \<Rightarrow>
   error + (feature list \<times> real \<times> string)" where
  "best_class var_start var_end [] store best = Inr (store, best)"
| "best_class var_start var_end ((me_class, bed_list) # co) store (best_frac_overlap, best_feature) =
     ebind (collapse_bed_records store bed_list) (\<lambda>(store, collapsed).
       let frac_overlap =
             reciprocal_overlap (var_start, var_end) (map (\<lambda>f. (f_start f, f_end f)) collapsed)
       in if frac_overlap > best_frac_overlap
          then best_class var_start var_end co store (frac_overlap, me_class)
          else best_class var_start var_end co store (best_frac_overlap, best_feature))"

definition annotation_intersect ::
  "variant \<Rightarrow> (string \<rightharpoonup> feature list) \<Rightarrow> real \<Rightarrow>
   error + (string option \<times> (string \<rightharpoonup> feature list))" where
  "annotation_intersect var ae_dict threshold =
     (case ae_dict (chrom var) of
        None \<Rightarrow> Inr (None, ae_dict)
      | Some features \<Rightarrow>
          ebind (pos_int (pos var)) (\<lambda>var_start.
          ebind (ebind (info_get var ''END'') py_int) (\<lambda>var_end.
          let class_overlap = scan_features var_start var_end features 0 []
          in ebind (best_class var_start var_end class_overlap features (0, ''''))
               (\<lambda>(store, best_frac_overlap, best_feature).
                  if best_frac_overlap \<ge> threshold
                  then Inr (Some best_feature, ae_dict(chrom var \<mapsto> store))
                  else Inr (None, ae_dict(chrom var \<mapsto> store))))))"

section \<open>The classification of one line\<close>

text \<open>
  What \<^verbatim>\<open>sv_classify\<close> is given: the reading of floats; the classes \<^verbatim>\<open>Vcf\<close> and
  \<^verbatim>\<open>Variant\<close>, as the header text \<^verbatim>\<open>vcf.get_header()\<close> for the header lines read, the
  constructor \<^verbatim>\<open>Variant(v, vcf, True)\<close> for those header lines and the fields of a
  line, and the serialisers; the gender map and the exclude list, as read from their
  files; the thresholds and the fitted model.
\<close>

record classifier =
  c_flt :: "string \<Rightarrow> real option"
  c_get_header :: "string list \<Rightarrow> string"
  c_Variant :: "string list \<Rightarrow> string list \<Rightarrow> variant"
  c_methods :: variant_methods
  c_gender :: "string \<rightharpoonup> int"
  c_exclude :: "string list"
  c_f_overlap :: real
  c_slope_threshold :: real
  c_rsquared_threshold :: real
  c_het_del_fit :: fit
  c_hom_del_fit :: fit
  c_params :: "dist_row list"

text \<open>
  The quick look at the line:
  \<^verbatim>\<open>
  v = line.rstrip().split('\t')
  info = v[7].split(';')
  svtype = None
  for x in info:
      if x.startswith('SVTYPE='):
          svtype = x.split('=')[1]
          break
  \<close>
\<close>

fun find_svtype :: "string list \<Rightarrow> string option" where
  "find_svtype [] = None"
| "find_svtype (x # xs) =
     (if startswith x ''SVTYPE='' then Some (split_on CHR ''='' x ! 1) else find_svtype xs)"

definition line_fields :: "string \<Rightarrow> string list" where
  "line_fields line = split_on CHR 0x09 (rstrip line)"

definition line_svtype :: "string \<Rightarrow> error + string option" where
  "line_svtype line =
     (let v = line_fields line
      in if length v \<le> 7 then Inl IndexError
         else Inr (find_svtype (split_on CHR '';'' (v ! 7))))"

text \<open>
  The mobile-element check:
  \<^verbatim>\<open>
  if ae_dict is not None and var.info['SVTYPE'] in ['DEL']:
      ae = annotation_intersect(var, ae_dict, f_overlap)
      if ae is not None:
          if ae.startswith('SINE') or ae.startswith('LINE') or ae.split('|')[2].startswith('SVA'):
              ae = 'ME:' + ae
          var.alt = '<DEL:%s>' % ae
          var.info['SVTYPE'] = 'MEI'
          vcf_out.write(var.get_var_string(True) + '\n')
          continue
  \<close>
  The result is the line written for a variant rewritten as MEI, if it is, and the
  annotation index as the check leaves it.
\<close>

definition mei_name :: "string \<Rightarrow> error + string" where
  "mei_name ae =
     (if startswith ae ''SINE'' \<or> startswith ae ''LINE'' then Inr (''ME:'' @ ae)
      else
        (let parts = split_on CHR ''|'' ae
         in if length parts \<le> 2 then Inl IndexError
            else if startswith (parts ! 2) ''SVA'' then Inr (''ME:'' @ ae)
            else Inr ae))"

definition mei_check ::
  "classifier \<Rightarrow> (string \<rightharpoonup> feature list) option \<Rightarrow> variant \<Rightarrow>
   error + (string option \<times> (string \<rightharpoonup> feature list) option)" where
  "mei_check c ae_dict var =
     (case ae_dict of
        None \<Rightarrow> Inr (None, None)
      | Some d \<Rightarrow>
          ebind (info_get var ''SVTYPE'') (\<lambda>svtype.
            if svtype = PStr ''DEL'' then
              ebind (annotation_intersect var d (c_f_overlap c)) (\<lambda>(ae, d).
                case ae of
                  None \<Rightarrow> Inr (None, Some d)
                | Some ae \<Rightarrow>
                    ebind (mei_name ae) (\<lambda>ae.
                      let var = var\<lparr>alt := ''<DEL:'' @ ae @ ''>''\<rparr>;
                          var = info_set var ''SVTYPE'' (PStr ''MEI'')
                      in Inr (Some (get_var_string (c_methods c) var True @ [CHR 0x0A]),
                              Some d)))
            else Inr (None, Some d)))"

text \<open>
  The count of positively genotyped samples:
  \<^verbatim>\<open>
  num_pos_samps = 0;
  for s in var.sample_list:
      if s in exclude:
          continue
      if var.genotype(s).get_format('GT') not in ["./.", "0/0"]:
          num_pos_samps += 1
  \<close>
\<close>

fun count_pos_samps :: "variant \<Rightarrow> string list \<Rightarrow> string list \<Rightarrow> nat \<Rightarrow> nat" where
  "count_pos_samps var exclude [] num_pos_samps = num_pos_samps"
| "count_pos_samps var exclude (s # ss) num_pos_samps =
     (if s \<in> set exclude then count_pos_samps var exclude ss num_pos_samps
      else if gts var s ''GT'' \<notin> set [''./.'', ''0/0'']
      then count_pos_samps var exclude ss (num_pos_samps + 1)
      else count_pos_samps var exclude ss num_pos_samps)"

text \<open>
  What the body of the loop does with one data line: the strings it writes to the
  output, the row it would write to the diagnostic file (variant id, type, number of
  positive samples and the three support flags; none for a line that ends with
  \<^verbatim>\<open>continue\<close>), and the annotation index afterwards.
  \<^verbatim>\<open>
  # bail if not DEL or DUP prior to reclassification
  if svtype not in ['DEL', 'DUP']:
      vcf_out.write(line)
      continue
  # parse the VCF line
  var = Variant(v, vcf, True)
  # check intersection with mobile elements
  ...
  # for now, don't worry about sex chromosomes
  if (var.chrom == 'X' or var.chrom == 'Y'):
      vcf_out.write(line)
      continue
  #count positively genotyped samples
  ...
  high_freq_support = False
  low_freq_support = False
  nb_support = False
  if num_pos_samps == 0:
      vcf_out.write(line)
  else:
      if has_cn_support_by_nb(var, gender, exclude, het_del_fit, hom_del_fit, params):
          nb_support = True
      if num_pos_samps < min_pos_samps_for_regression:
          if has_low_freq_depth_support(var, gender, exclude):
              low_freq_support = True
              vcf_out.write(line)
          else:
              for m_var in to_bnd_strings(var, True ):
                  vcf_out.write(m_var + '\n')
      else:
          if has_high_freq_depth_support(var, gender, exclude, slope_threshold,
                                         rsquared_threshold):
              high_freq_support = True
              vcf_out.write(line)
          else:
              for m_var in to_bnd_strings(var, True):
                  vcf_out.write(m_var + '\n')
  if diag_outfile is not None:
      outf.write(var.var_id+"\t"+svtype+"\t"+str(num_pos_samps)+"\t"+str(nb_support)
                 +"\t"+str(high_freq_support)+"\t"+str(low_freq_support)+"\n")
  \<close>
\<close>

type_synonym diag_row = "string \<times> string \<times> nat \<times> bool \<times> bool \<times> bool"

record line_result =
  written :: "string list"
  diag :: "diag_row option"
  ae_after :: "(string \<rightharpoonup> feature list) option"

definition bnd_lines :: "classifier \<Rightarrow> variant \<Rightarrow> error + (string list \<times> variant)" where
  "bnd_lines c var =
     ebind (to_bnd_strings (c_methods c) var True) (\<lambda>(var1, var2).
     ebind (to_bnd_records var) (\<lambda>(first_state, var).
       Inr ([var1 @ [CHR 0x0A], var2 @ [CHR 0x0A]], var)))"

text \<open>
  \<^verbatim>\<open>to_bnd_strings\<close> leaves \<^verbatim>\<open>var\<close> in the state of its second record, so the diagnostic
  row of a rewritten variant carries the id of the second mate.
\<close>

definition classify_line ::
  "classifier \<Rightarrow> string list \<Rightarrow> (string \<rightharpoonup> feature list) option \<Rightarrow> string \<Rightarrow>
   error + line_result" where
  "classify_line c header ae_dict line =
     ebind (line_svtype line) (\<lambda>svtype.
       if svtype \<notin> set [Some ''DEL'', Some ''DUP''] then
         Inr \<lparr>written = [line], diag = None, ae_after = ae_dict\<rparr>
       else
         let var = c_Variant c header (line_fields line) in
         ebind (mei_check c ae_dict var) (\<lambda>(mei, ae_dict).
           case mei of
             Some mei_line \<Rightarrow> Inr \<lparr>written = [mei_line], diag = None, ae_after = ae_dict\<rparr>
           | None \<Rightarrow>
               if chrom var = ''X'' \<or> chrom var = ''Y'' then
                 Inr \<lparr>written = [line], diag = None, ae_after = ae_dict\<rparr>
               else
                 let num_pos_samps = count_pos_samps var (c_exclude c) (sample_list var) 0;
                     row = (\<lambda>var nb hf lf.
                              Some (var_id var, the svtype, num_pos_samps, nb, hf, lf))
                 in
                 if num_pos_samps = 0 then
                   Inr \<lparr>written = [line], diag = row var False False False, ae_after = ae_dict\<rparr>
                 else
                   ebind (has_cn_support_by_nb (c_flt c) var (c_exclude c) (c_het_del_fit c)
                            (c_hom_del_fit c) (c_params c) (1 / 2)) (\<lambda>nb_support.
                     if num_pos_samps < 10 then
                       ebind (has_low_freq_depth_support (c_flt c) var (c_gender c)
                                (c_exclude c)) (\<lambda>low_freq_support.
                         if low_freq_support then
                           Inr \<lparr>written = [line], diag = row var nb_support False True,
                                ae_after = ae_dict\<rparr>
                         else
                           ebind (bnd_lines c var) (\<lambda>(ls, var).
                             Inr \<lparr>written = ls, diag = row var nb_support False False,
                                  ae_after = ae_dict\<rparr>))
                     else
                       ebind (has_high_freq_depth_support (c_flt c) var (c_gender c)
                                (c_exclude c) (c_slope_threshold c)
                                (c_rsquared_threshold c)) (\<lambda>high_freq_support.
                         if high_freq_support then
                           Inr \<lparr>written = [line], diag = row var nb_support True False,
                                ae_after = ae_dict\<rparr>
                         else
                           ebind (bnd_lines c var) (\<lambda>(ls, var).
                             Inr \<lparr>written = ls, diag = row var nb_support False False,
                                  ae_after = ae_dict\<rparr>)))))"

section \<open>The classification of a file\<close>

text \<open>
  \<^verbatim>\<open>
  for line in vcf_in:
      if in_header:
          if line[0] == '#':
              header.append(line)
              continue
          else:
              in_header = False
              vcf.add_header(header)
              vcf_out.write(vcf.get_header() + '\n')
      ... (the body above)
  \<close>
  The state of the loop is the header flag, the header lines, the annotation index and
  what has been written to the output and to the diagnostic file. An exception ends
  the run; what was written before it stays written.
\<close>

record run =
  in_header :: bool
  header :: "string list"
  ae_dict :: "(string \<rightharpoonup> feature list) option"
  vcf_out :: "string list"
  diag_out :: "diag_row list"
  failure :: "error option"

fun sv_classify_loop :: "classifier \<Rightarrow> string list \<Rightarrow> run \<Rightarrow> run" where
  "sv_classify_loop c [] st = st"
| "sv_classify_loop c (line # lines) st =
     (if in_header st \<and> line = [] then st\<lparr>failure := Some IndexError\<rparr>
      else if in_header st \<and> hd line = CHR ''#'' then
        sv_classify_loop c lines (st\<lparr>header := header st @ [line]\<rparr>)
      else
        let st = (if in_header st
                  then st\<lparr>in_header := False,
                          vcf_out := vcf_out st @ [c_get_header c (header st) @ [CHR 0x0A]]\<rparr>
                  else st)
        in case classify_line c (header st) (ae_dict st) line of
             Inl e \<Rightarrow> st\<lparr>failure := Some e\<rparr>
           | Inr r \<Rightarrow>
               sv_classify_loop c lines
                 (st\<lparr>ae_dict := ae_after r,
                     vcf_out := vcf_out st @ written r,
                     diag_out := diag_out st @ (case diag r of None \<Rightarrow> [] | Some d \<Rightarrow> [d])\<rparr>))"

definition sv_classify ::
  "classifier \<Rightarrow> (string \<rightharpoonup> feature list) option \<Rightarrow> string list \<Rightarrow> run" where
  "sv_classify c ae lines =
     sv_classify_loop c lines
       \<lparr>in_header = True, header = [], ae_dict = ae, vcf_out = [], diag_out = [],
        failure = None\<rparr>"

subsection \<open>Example input for the classification of a line\<close>

text \<open>
  For the examples: a line made of tab-separated fields; a plain reading of a VCF line
  in the place of \<^verbatim>\<open>Variant\<close> (the first seven columns as they are, INFO split at
  \<open>;\<close> and \<open>=\<close>, the samples named by the last header line, their values split at
  \<open>:\<close> along the FORMAT column); a serialiser that prints the first seven columns and
  the type; a classifier with these, no excluded samples, the default thresholds, fits
  that predict 0 and an empty distribution table; and lines with a deletion of three
  or ten samples on chromosome 1 or X.
\<close>

fun join_tabs :: "string list \<Rightarrow> string" where
  "join_tabs [] = []"
| "join_tabs [x] = x"
| "join_tabs (x # y # zs) = x @ [CHR 0x09] @ join_tabs (y # zs)"

definition vcf_line :: "string list \<Rightarrow> string" where
  "vcf_line fs = join_tabs fs @ [CHR 0x0A]"

definition plain_info :: "string \<Rightarrow> (string \<rightharpoonup> py_val)" where
  "plain_info s =
     map_of (map (\<lambda>kv. case split_on CHR ''='' kv of
                          k # v # rest \<Rightarrow> (k, PStr v)
                        | _ \<Rightarrow> (kv, PTrue))
               (split_on CHR '';'' s))"

definition plain_Variant :: "string list \<Rightarrow> string list \<Rightarrow> variant" where
  "plain_Variant hdr v =
     (let samples = drop 9 (line_fields (last hdr));
          formats = split_on CHR '':'' (v ! 8)
      in \<lparr>chrom = v ! 0,
          pos = (case int_of_string (v ! 1) of Some n \<Rightarrow> PInt n | None \<Rightarrow> PStr (v ! 1)),
          var_id = v ! 2, ref_allele = v ! 3, alt = v ! 4, qual = v ! 5, filter_field = v ! 6,
          info = plain_info (v ! 7),
          sample_list = samples, active_formats = formats,
          gts = (\<lambda>s f. case map_of (zip samples (drop 9 v)) s of
                          None \<Rightarrow> ''.''
                        | Some vals \<Rightarrow>
                            (case map_of (zip formats (split_on CHR '':'' vals)) f of
                               None \<Rightarrow> ''.''
                             | Some x \<Rightarrow> x))\<rparr>)"

definition header_abc :: "string list" where
  "header_abc = [vcf_line [''##fileformat=VCFv4.2''],
           vcf_line [''#CHROM'', ''POS'', ''ID'', ''REF'', ''ALT'', ''QUAL'', ''FILTER'', ''INFO'',
                     ''FORMAT'', ''A'', ''B'', ''C'']]"

definition full_info :: string where
  "full_info = ''SVTYPE=DEL;SVLEN=-5000;END=5100;AF=0.5;CIPOS=-2,2;CIEND=-3,3;CIPOS95=-1,1;CIEND95=0,0''"


definition plain_serialisers :: variant_methods where
  "plain_serialisers =
     \<lparr>get_info_string = (\<lambda>v. ''INFO''), get_format_string = (\<lambda>v. ''FORMAT''),
      get_gt_string = (\<lambda>v. ''GTS''),
      get_var_string = (\<lambda>v fixed_gts.
         join_tabs [chrom v, py_str (pos v), var_id v, ref_allele v, alt v, qual v, filter_field v,
                    ''SVTYPE='' @ (case info v ''SVTYPE'' of None \<Rightarrow> ''.'' | Some t \<Rightarrow> py_str t)])\<rparr>"

definition plain_classifier :: classifier where
  "plain_classifier =
     \<lparr>c_flt = decimals, c_get_header = concat, c_Variant = plain_Variant,
      c_methods = plain_serialisers, c_gender = Map.empty, c_exclude = [],
      c_f_overlap = 9 / 10, c_slope_threshold = 1, c_rsquared_threshold = 1 / 5,
      c_het_del_fit = flat_fit, c_hom_del_fit = flat_fit, c_params = []\<rparr>"

definition x_fields :: "string list" where
  "x_fields = [''X'', ''100'', ''7'', ''N'', ''<DEL>'', ''0.00'', ''.'', full_info, ''GT:CN:AB'',
               ''0/0:2:0'', ''0/0:2:0'', ''0/1:1:0.5'']"

definition sine_index :: "string \<rightharpoonup> feature list" where
  "sine_index = [''X'' \<mapsto> [(100, 5100, ''SINE|Alu|AluY'')]]"

definition chr1_index :: "string \<rightharpoonup> feature list" where
  "chr1_index = [''1'' \<mapsto> [(100, 5100, ''SINE|Alu|AluY'')]]"




section \<open>Properties of the reciprocal overlap\<close>

lemma overlap_loop_fst:
  "fst (overlap_loop a bs (g, ov)) = g + aggregate_width bs"
  by (induction bs arbitrary: g ov) (simp_all add: aggregate_width_def)

text \<open>
  Claim C8, as stated, asks for \<open>0.0\<close> on the disjoint pair \<open>[0,10]\<close>, \<open>[[20,30]]\<close>.
  The code does not clamp a negative overlap: it returns \<open>-1\<close> there.
\<close>

theorem reciprocal_overlap_disjoint_not_zero:
  "reciprocal_overlap (0, 10) [(20, 30)] = -1 \<and> reciprocal_overlap (0, 10) [(20, 30)] \<noteq> 0"
  by (simp add: reciprocal_overlap_def)

text \<open>
  Claim C8, amended: \<open>reciprocal_overlap([0,10], [[0,10]])\<close> is \<open>1\<close>,
  \<open>reciprocal_overlap([0,10], [[20,30]])\<close> is \<open>-1\<close> (the overlap of disjoint intervals is
  negative, not zero), \<open>reciprocal_overlap([0,10], [[5,5]])\<close> is \<open>0\<close>, and whenever the
  query interval has zero width or the aggregate width of the feature list is zero the
  function returns \<open>0\<close> instead of dividing by zero.
\<close>

theorem reciprocal_overlap_examples_and_guards:
  "reciprocal_overlap (0, 10) [(0, 10)] = 1 \<and>
   reciprocal_overlap (0, 10) [(20, 30)] = -1 \<and>
   reciprocal_overlap (0, 10) [(5, 5)] = 0 \<and>
   (\<forall>a b_list. snd a = fst a \<or> aggregate_width b_list = 0 \<longrightarrow>
        reciprocal_overlap a b_list = 0)"
proof -
  have guard: "reciprocal_overlap a bs = 0"
    if "snd a = fst a \<or> aggregate_width bs = 0" for a bs
  proof (cases "snd a = fst a")
    case True
    then show ?thesis by (simp add: reciprocal_overlap_def)
  next
    case False
    with that have "aggregate_width bs = 0" by simp
    then have "fst (overlap_loop a bs (0, 0)) = 0"
      by (simp add: overlap_loop_fst)
    then show ?thesis
      by (cases "overlap_loop a bs (0, 0)") (simp add: reciprocal_overlap_def)
  qed
  have "reciprocal_overlap (0, 10) [(0, 10)] = 1"
    by (simp add: reciprocal_overlap_def)
  moreover have "reciprocal_overlap (0, 10) [(20, 30)] = -1"
    by (simp add: reciprocal_overlap_def)
  moreover have "reciprocal_overlap (0, 10) [(5, 5)] = 0"
    by (simp add: reciprocal_overlap_def)
  ultimately show ?thesis using guard by blast
qed

theorem reciprocal_overlap_guard_witness:
  "reciprocal_overlap (3, 3) [(0, 10)] = 0 \<and> reciprocal_overlap (0, 10) [(4, 9), (9, 4)] = 0"
proof -
  have "aggregate_width [(4, 9), (9, 4)] = 0"
    by (simp add: aggregate_width_def)
  then show ?thesis
    using reciprocal_overlap_examples_and_guards by simp
qed

section \<open>Properties of the conversion to BEDPE\<close>


lemma ebind_Inl_iff: "(ebind x f = Inl e) = (x = Inl e \<or> (\<exists>a. x = Inr a \<and> f a = Inl e))"
  by (cases x) simp_all

lemma end_required_distinct:
  "end_required \<noteq> IndexError" "end_required \<noteq> AttributeError"
  "end_required \<noteq> TypeError" "end_required \<noteq> AssertionError"
  "end_required \<noteq> unpack_error" "end_required \<noteq> invalid_literal"
  "end_required \<noteq> svtype_required"
  by (simp_all add: end_required_def unpack_error_def invalid_literal_def svtype_required_def)

lemma py_int_not_end_required: "py_int e \<noteq> Inl end_required"
  using end_required_distinct(6) by (cases e) (auto split: option.splits)

lemma emap_not_end_required:
  "emap (\<lambda>x. py_int (PStr x)) xs \<noteq> Inl end_required"
proof (induction xs)
  case Nil
  then show ?case by simp
next
  case (Cons x xs)
  then show ?case
    using py_int_not_end_required [of "PStr x"]
    by (auto simp: ebind_Inl_iff simp del: py_int.simps)
qed

lemma adjust_coordinate_not_end_required:
  "adjust_coordinate v tag a b \<noteq> Inl end_required"
proof -
  have "(case span of s0 # s1 # x \<Rightarrow> Inr (a + s0, b + s1) | _ \<Rightarrow> Inl IndexError)
          \<noteq> Inl end_required"
    for span :: "int list"
    using end_required_distinct(1) by (simp split: list.splits)
  then show ?thesis
    unfolding adjust_coordinate_def
    using end_required_distinct(2)
    by (auto simp: ebind_Inl_iff emap_not_end_required
             simp del: py_int.simps split: option.splits py_val.splits)
qed

lemma simple_breakpoints_end_required:
  "(simple_breakpoints v = Inl end_required) = (info v ''END'' = None)"
proof (cases "info v ''END''")
  case None
  then show ?thesis by (simp add: simple_breakpoints_def)
next
  case (Some e)
  have "pos_int p \<noteq> Inl end_required" for p
    using end_required_distinct(3) by (cases p) auto
  moreover have "(case take 2 strands of [o1, o2] \<Rightarrow> Inr ([o1], [o2]) | _ \<Rightarrow> Inl unpack_error)
                   \<noteq> Inl end_required"
    for strands :: string
    using end_required_distinct(5) by (simp split: list.splits)
  ultimately show ?thesis
    using Some py_int_not_end_required [of e] end_required_distinct(3)
    by (auto simp: simple_breakpoints_def ebind_Inl_iff
             split: option.splits py_val.splits)
qed

lemma convert_unfold:
  assumes "chosen_variant p s = Some v" and "info v ''SVTYPE'' = Some t"
  shows "convert m p s =
     ebind (if t = PStr ''BND'' then bnd_breakpoints v else simple_breakpoints v)
       (\<lambda>(w, c1, s1, e1, c2, s2, e2, o1, o2).
     ebind (adjust_coordinate w ''CIPOS'' s1 e1) (\<lambda>(s1, e1).
     ebind (adjust_coordinate w ''CIEND'' s2 e2) (\<lambda>(s2, e2).
       Inr \<lparr>b_c1 = (if p = None then c2 else c1),
            b_s1 = max (if p = None then s2 else s1) 0,
            b_e1 = max (if p = None then e2 else e1) 0,
            b_c2 = (if p = None then c1 else c2),
            b_s2 = max (if p = None then s1 else s2) 0,
            b_e2 = max (if p = None then e1 else e2) 0,
            b_name = (case info w ''EVENT'' of None \<Rightarrow> PStr (var_id w) | Some ev \<Rightarrow> ev),
            b_score = qual w,
            b_o1 = (if p = None then o2 else o1),
            b_o2 = (if p = None then o1 else o2),
            b_svtype = t, b_filter = filter_field w,
            b_info_a = (if p = None then ''MISSING'' else get_info_string m w),
            b_info_b = (if t = PStr ''BND'' then
                          (case s of None \<Rightarrow> ''MISSING''
                           | Some sec \<Rightarrow> get_info_string m (if p = None then w else sec))
                        else ''.''),
            b_format = get_format_string m w,
            b_gt = get_gt_string m w\<rparr>)))"
  using assms
  by (cases p; cases s) (simp_all add: convert_def Let_def split_def)

text \<open>
  Claim C9. When the converter turns a simple (non-BND) variant into BEDPE, the call
  raises the \<^verbatim>\<open>ValueError\<close> "END entry in VCF required for conversion to BEDPE" exactly
  when the variant's INFO has no \<^verbatim>\<open>END\<close> entry: a missing \<^verbatim>\<open>END\<close> is reported to the
  caller, and with \<^verbatim>\<open>END\<close> present this error is never raised.
\<close>

theorem convert_simple_raises_iff_END_missing:
  assumes "chosen_variant p s = Some v" and "info v ''SVTYPE'' = Some t" and "t \<noteq> PStr ''BND''"
  shows "(convert m p s = Inl end_required) = (info v ''END'' = None)"
proof (cases "info v ''END''")
  case None
  then have "simple_breakpoints v = Inl end_required"
    by (simp add: simple_breakpoints_end_required)
  with assms None show ?thesis by (simp add: convert_unfold)
next
  case (Some e)
  then have sb: "simple_breakpoints v \<noteq> Inl end_required"
    by (simp add: simple_breakpoints_end_required)
  have "convert m p s \<noteq> Inl end_required"
    using assms(3) sb
    by (auto simp: convert_unfold [OF assms(1,2)] ebind_Inl_iff
          adjust_coordinate_not_end_required split_def)
  with Some show ?thesis by simp
qed

theorem convert_simple_raises_iff_END_missing_witness:
  "convert fixed_serialisers (Some del_without_end) None = Inl end_required \<and>
   convert fixed_serialisers (Some del_with_end) None \<noteq> Inl end_required"
proof -
  have a: "chosen_variant (Some del_without_end) None = Some del_without_end"
    and b: "chosen_variant (Some del_with_end) None = Some del_with_end"
    by (simp_all add: chosen_variant_def)
  have c: "info del_without_end ''SVTYPE'' = Some (PStr ''DEL'')"
    and d: "info del_with_end ''SVTYPE'' = Some (PStr ''DEL'')"
    by (simp_all add: del_without_end_def del_with_end_def del_record_def)
  have e: "PStr ''DEL'' \<noteq> PStr ''BND''" by simp
  have "info del_without_end ''END'' = None" and "info del_with_end ''END'' \<noteq> None"
    by (simp_all add: del_without_end_def del_with_end_def del_record_def)
  then show ?thesis
    using convert_simple_raises_iff_END_missing [OF a c e, of fixed_serialisers]
      convert_simple_raises_iff_END_missing [OF b d e, of fixed_serialisers]
    by simp
qed



section \<open>Properties of the breakend rewrite\<close>

lemma info_get_Some: "info var k = Some x \<Longrightarrow> info_get var k = Inr x"
  by (simp add: info_get_def)

lemma info_del_Some:
  "info var k = Some x \<Longrightarrow> info_del var k = Inr (var\<lparr>info := (info var)(k := None)\<rparr>)"
  by (simp add: info_del_def)

lemma info_set_sel:
  "info (info_set var k x) = (info var)(k \<mapsto> x)"
  "var_id (info_set var k x) = var_id var"
  "chrom (info_set var k x) = chrom var"
  "alt (info_set var k x) = alt var"
  "pos (info_set var k x) = pos var"
  by (simp_all add: info_set_def)

lemma str_of_int_100: "str_of_int 100 = ''100''"
  by (simp add: str_of_int_def digits_of_nat.simps digit_char_def)

text \<open>
  With all the entries it reads and deletes present, the function raises nothing, and
  its two records are the ones below; \<open>base\<close> is the state after the four statements
  "for both ends".
\<close>

lemma to_bnd_records_unfold:
  assumes t: "info var ''SVTYPE'' = Some t"
    and e: "info var ''END'' = Some old_end"
    and ci: "info var ''CIPOS'' = Some cipos" "info var ''CIEND'' = Some ciend"
      "info var ''CIPOS95'' = Some cipos95" "info var ''CIEND95'' = Some ciend95"
    and l: "info var ''SVLEN'' = Some svlen"
  shows "\<exists>base.
     var_id base = var_id var \<and> chrom base = chrom var \<and>
     info base = (info var)(''SVTYPE'' \<mapsto> PStr ''BND'', ''EVENT'' \<mapsto> PStr (var_id var),
                    ''SVLEN'' := None, ''END'' := None) \<and>
     to_bnd_records var =
     (let old_type = t; old_id = var_id var; old_pos = pos var;
         var = base\<lparr>var_id := old_id @ ''_1''\<rparr>;
         var = info_set var ''MATEID'' (PStr (old_id @ ''_2''));
         var = (if old_type = PStr ''DEL'' then var\<lparr>alt := alt_after (chrom var) old_end\<rparr>
                else var\<lparr>alt := alt_before (chrom var) old_end\<rparr>);
         var1 = var;
         var = var\<lparr>var_id := old_id @ ''_2''\<rparr>;
         var = info_set var ''MATEID'' (PStr (old_id @ ''_1''));
         var = info_set var ''CIPOS'' ciend;
         var = info_set var ''CIEND'' cipos;
         var = info_set var ''CIPOS95'' ciend95;
         var = info_set var ''CIEND95'' cipos95;
         var = var\<lparr>pos := old_end\<rparr>;
         var = info_set var ''SECONDARY'' PTrue;
         var = (if old_type = PStr ''DEL'' then var\<lparr>alt := alt_before (chrom var) old_pos\<rparr>
                else var\<lparr>alt := alt_after (chrom var) old_pos\<rparr>);
         var2 = var
     in Inr (var1, var2))"
proof -
  define v0 where
    "v0 = info_set (info_set var ''SVTYPE'' (PStr ''BND'')) ''EVENT'' (PStr (var_id var))"
  define v1 where "v1 = v0\<lparr>info := (info v0)(''SVLEN'' := None)\<rparr>"
  define v2 where "v2 = v1\<lparr>info := (info v1)(''END'' := None)\<rparr>"
  have d1: "info_del v0 ''SVLEN'' = Inr v1"
    unfolding v1_def by (rule info_del_Some [where x = svlen]) (simp add: v0_def info_set_sel l)
  have d2: "info_del v1 ''END'' = Inr v2"
    unfolding v2_def
    by (rule info_del_Some [where x = old_end]) (simp add: v1_def v0_def info_set_sel e)
  have sel: "var_id v2 = var_id var" "chrom v2 = chrom var"
    "info v2 = (info var)(''SVTYPE'' \<mapsto> PStr ''BND'', ''EVENT'' \<mapsto> PStr (var_id var),
                  ''SVLEN'' := None, ''END'' := None)"
    by (simp_all add: v2_def v1_def v0_def info_set_sel)
  have r: "to_bnd_records var =
     (let old_type = t; old_id = var_id var; old_pos = pos var;
         var = v2\<lparr>var_id := old_id @ ''_1''\<rparr>;
         var = info_set var ''MATEID'' (PStr (old_id @ ''_2''));
         var = (if old_type = PStr ''DEL'' then var\<lparr>alt := alt_after (chrom var) old_end\<rparr>
                else var\<lparr>alt := alt_before (chrom var) old_end\<rparr>);
         var1 = var;
         var = var\<lparr>var_id := old_id @ ''_2''\<rparr>;
         var = info_set var ''MATEID'' (PStr (old_id @ ''_1''));
         var = info_set var ''CIPOS'' ciend;
         var = info_set var ''CIEND'' cipos;
         var = info_set var ''CIPOS95'' ciend95;
         var = info_set var ''CIEND95'' cipos95;
         var = var\<lparr>pos := old_end\<rparr>;
         var = info_set var ''SECONDARY'' PTrue;
         var = (if old_type = PStr ''DEL'' then var\<lparr>alt := alt_before (chrom var) old_pos\<rparr>
                else var\<lparr>alt := alt_after (chrom var) old_pos\<rparr>);
         var2 = var
     in Inr (var1, var2))"
    unfolding to_bnd_records_def
    by (simp only: info_get_Some [OF t] info_get_Some [OF e] info_get_Some [OF ci(1)]
     info_get_Some [OF ci(2)] info_get_Some [OF ci(3)] info_get_Some [OF ci(4)] ebind.simps Let_def
     v0_def [symmetric] d1 d2)
  from sel r show ?thesis by blast
qed

text \<open>
  Claim C7, as stated, asks only for the confidence-interval fields. A deletion at
  \<open>pos=100\<close>, \<open>END=200\<close> with all four of them and no \<^verbatim>\<open>SVLEN\<close> makes
  \<^verbatim>\<open>del var.info['SVLEN']\<close> raise \<^verbatim>\<open>KeyError\<close>, so no record is produced; and one whose
  INFO already carries \<^verbatim>\<open>SECONDARY\<close> yields a first mate that is marked \<^verbatim>\<open>SECONDARY\<close>
  too.
\<close>

theorem to_bnd_strings_ci_fields_not_enough:
  "pos del_without_svlen = PInt 100 \<and>
   info del_without_svlen ''SVTYPE'' = Some (PStr ''DEL'') \<and>
   info del_without_svlen ''END'' = Some (PStr ''200'') \<and>
   info del_without_svlen ''CIPOS'' \<noteq> None \<and> info del_without_svlen ''CIEND'' \<noteq> None \<and>
   info del_without_svlen ''CIPOS95'' \<noteq> None \<and> info del_without_svlen ''CIEND95'' \<noteq> None \<and>
   to_bnd_strings fixed_serialisers del_without_svlen True = Inl (KeyError ''SVLEN'') \<and>
   pos del_marked_secondary = PInt 100 \<and>
   info del_marked_secondary ''SVTYPE'' = Some (PStr ''DEL'') \<and>
   info del_marked_secondary ''END'' = Some (PStr ''200'') \<and>
   info del_marked_secondary ''CIPOS'' \<noteq> None \<and> info del_marked_secondary ''CIEND'' \<noteq> None \<and>
   info del_marked_secondary ''CIPOS95'' \<noteq> None \<and>
   info del_marked_secondary ''CIEND95'' \<noteq> None \<and>
   \<not> isl (to_bnd_records del_marked_secondary) \<and>
   info (fst (projr (to_bnd_records del_marked_secondary))) ''SECONDARY'' = Some PTrue"
proof -
  have a: "to_bnd_records del_without_svlen = Inl (KeyError ''SVLEN'')"
    by (simp add: to_bnd_records_def del_without_svlen_def del_record_def ci_fields_def
          info_get_def info_del_def info_set_def)
  have i: "info del_marked_secondary ''SVTYPE'' = Some (PStr ''DEL'')"
    "info del_marked_secondary ''END'' = Some (PStr ''200'')"
    "info del_marked_secondary ''CIPOS'' = Some (PStr ''-2,2'')"
    "info del_marked_secondary ''CIEND'' = Some (PStr ''-3,3'')"
    "info del_marked_secondary ''CIPOS95'' = Some (PStr ''-1,1'')"
    "info del_marked_secondary ''CIEND95'' = Some (PStr ''0,0'')"
    "info del_marked_secondary ''SVLEN'' = Some (PStr ''-100'')"
    "info del_marked_secondary ''SECONDARY'' = Some PTrue"
    by (simp_all add: del_marked_secondary_def del_record_def ci_fields_def)
  from to_bnd_records_unfold [OF i(1-7)]
  have b: "\<not> isl (to_bnd_records del_marked_secondary) \<and>
    info (fst (projr (to_bnd_records del_marked_secondary))) ''SECONDARY'' = Some PTrue"
    using i(8) by (auto simp: Let_def info_set_sel)
  have c: "pos del_without_svlen = PInt 100 \<and>
   info del_without_svlen ''SVTYPE'' = Some (PStr ''DEL'') \<and>
   info del_without_svlen ''END'' = Some (PStr ''200'') \<and>
   info del_without_svlen ''CIPOS'' \<noteq> None \<and> info del_without_svlen ''CIEND'' \<noteq> None \<and>
   info del_without_svlen ''CIPOS95'' \<noteq> None \<and> info del_without_svlen ''CIEND95'' \<noteq> None"
    by (simp add: del_without_svlen_def del_record_def ci_fields_def)
  have d: "pos del_marked_secondary = PInt 100"
    by (simp add: del_marked_secondary_def del_record_def)
  from a b c d i show ?thesis
    by (simp add: to_bnd_strings_def)
qed

text \<open>
  Claim C7, amended: for every variant at \<open>pos=100\<close> with \<open>END=200\<close> whose INFO holds
  \<^verbatim>\<open>SVTYPE\<close>, \<^verbatim>\<open>SVLEN\<close>, \<^verbatim>\<open>CIPOS\<close>, \<^verbatim>\<open>CIEND\<close>, \<^verbatim>\<open>CIPOS95\<close> and \<^verbatim>\<open>CIEND95\<close> and does not
  already carry \<^verbatim>\<open>SECONDARY\<close>, \<^verbatim>\<open>to_bnd_strings\<close> returns the serialisations of two
  records such that: mate 1 has id \<open>id_1\<close>, \<^verbatim>\<open>MATEID\<close> \<open>id_2\<close> and, for a DEL, ALT
  \<open>N[chrom:200[\<close>; mate 2 has id \<open>id_2\<close>, \<^verbatim>\<open>MATEID\<close> \<open>id_1\<close>, for a DEL ALT
  \<open>]chrom:100]N\<close>, and is the only one marked \<^verbatim>\<open>SECONDARY\<close>; both carry
  \<^verbatim>\<open>SVTYPE=BND\<close> and \<^verbatim>\<open>EVENT\<close> equal to the original id; \<^verbatim>\<open>SVLEN\<close> and \<^verbatim>\<open>END\<close> are
  absent from both; mate 2's \<^verbatim>\<open>CIPOS\<close>/\<^verbatim>\<open>CIPOS95\<close> are the original
  \<^verbatim>\<open>CIEND\<close>/\<^verbatim>\<open>CIEND95\<close> and its \<^verbatim>\<open>CIEND\<close>/\<^verbatim>\<open>CIEND95\<close> the original
  \<^verbatim>\<open>CIPOS\<close>/\<^verbatim>\<open>CIPOS95\<close>. For any other type, a DUP in particular, the two ALT bracket
  orientations are exchanged.
\<close>

theorem to_bnd_strings_mates:
  assumes t: "info var ''SVTYPE'' = Some t"
    and p: "pos var = PInt 100"
    and e: "info var ''END'' = Some (PStr ''200'')"
    and ci: "info var ''CIPOS'' = Some cipos" "info var ''CIEND'' = Some ciend"
      "info var ''CIPOS95'' = Some cipos95" "info var ''CIEND95'' = Some ciend95"
    and l: "info var ''SVLEN'' = Some svlen"
    and s: "info var ''SECONDARY'' = None"
  shows "\<exists>var1 var2.
     to_bnd_strings m var fixed_gts =
       Inr (get_var_string m var1 fixed_gts, get_var_string m var2 fixed_gts) \<and>
     to_bnd_records var = Inr (var1, var2) \<and>
     var_id var1 = var_id var @ ''_1'' \<and>
     alt var1 = (if t = PStr ''DEL'' then ''N['' @ chrom var @ '':200[''
                 else '']'' @ chrom var @ '':200]N'') \<and>
     info var1 ''MATEID'' = Some (PStr (var_id var @ ''_2'')) \<and>
     var_id var2 = var_id var @ ''_2'' \<and>
     alt var2 = (if t = PStr ''DEL'' then '']'' @ chrom var @ '':100]N''
                 else ''N['' @ chrom var @ '':100['') \<and>
     info var2 ''MATEID'' = Some (PStr (var_id var @ ''_1'')) \<and>
     info var1 ''SECONDARY'' = None \<and> info var2 ''SECONDARY'' = Some PTrue \<and>
     info var1 ''SVTYPE'' = Some (PStr ''BND'') \<and> info var2 ''SVTYPE'' = Some (PStr ''BND'') \<and>
     info var1 ''EVENT'' = Some (PStr (var_id var)) \<and>
     info var2 ''EVENT'' = Some (PStr (var_id var)) \<and>
     info var1 ''SVLEN'' = None \<and> info var1 ''END'' = None \<and>
     info var2 ''SVLEN'' = None \<and> info var2 ''END'' = None \<and>
     info var2 ''CIPOS'' = Some ciend \<and> info var2 ''CIPOS95'' = Some ciend95 \<and>
     info var2 ''CIEND'' = Some cipos \<and> info var2 ''CIEND95'' = Some cipos95"
proof -
  from to_bnd_records_unfold [OF t e ci l] obtain base where
    sel: "var_id base = var_id var" "chrom base = chrom var"
      "info base = (info var)(''SVTYPE'' \<mapsto> PStr ''BND'', ''EVENT'' \<mapsto> PStr (var_id var),
                    ''SVLEN'' := None, ''END'' := None)"
    and r: "to_bnd_records var =
     (let old_type = t; old_id = var_id var; old_pos = pos var;
         var = base\<lparr>var_id := old_id @ ''_1''\<rparr>;
         var = info_set var ''MATEID'' (PStr (old_id @ ''_2''));
         var = (if old_type = PStr ''DEL''
                then var\<lparr>alt := alt_after (chrom var) (PStr ''200'')\<rparr>
                else var\<lparr>alt := alt_before (chrom var) (PStr ''200'')\<rparr>);
         var1 = var;
         var = var\<lparr>var_id := old_id @ ''_2''\<rparr>;
         var = info_set var ''MATEID'' (PStr (old_id @ ''_1''));
         var = info_set var ''CIPOS'' ciend;
         var = info_set var ''CIEND'' cipos;
         var = info_set var ''CIPOS95'' ciend95;
         var = info_set var ''CIEND95'' cipos95;
         var = var\<lparr>pos := PStr ''200''\<rparr>;
         var = info_set var ''SECONDARY'' PTrue;
         var = (if old_type = PStr ''DEL'' then var\<lparr>alt := alt_before (chrom var) old_pos\<rparr>
                else var\<lparr>alt := alt_after (chrom var) old_pos\<rparr>);
         var2 = var
     in Inr (var1, var2))"
    by blast
  show ?thesis
  proof (cases "t = PStr ''DEL''")
    case True
    show ?thesis
      unfolding to_bnd_strings_def r Let_def
      using True s p
      by (simp add: info_set_sel sel alt_after_def alt_before_def str_of_int_100)
  next
    case False
    show ?thesis
      unfolding to_bnd_strings_def r Let_def
      using False s p
      by (simp add: info_set_sel sel alt_after_def alt_before_def str_of_int_100)
  qed
qed

theorem to_bnd_strings_mates_witness:
  "to_bnd_strings fixed_serialisers del_100_200 True = Inr (''7_1'', ''7_2'') \<and>
   \<not> isl (to_bnd_records del_100_200) \<and>
   alt (fst (projr (to_bnd_records del_100_200))) = ''N[1:200['' \<and>
   alt (snd (projr (to_bnd_records del_100_200))) = '']1:100]N'' \<and>
   info (fst (projr (to_bnd_records del_100_200))) ''SECONDARY'' = None \<and>
   info (snd (projr (to_bnd_records del_100_200))) ''SECONDARY'' = Some PTrue \<and>
   info (snd (projr (to_bnd_records del_100_200))) ''CIPOS'' = Some (PStr ''-3,3'') \<and>
   info (snd (projr (to_bnd_records del_100_200))) ''CIEND'' = Some (PStr ''-2,2'')"
proof -
  have i: "info del_100_200 ''SVTYPE'' = Some (PStr ''DEL'')"
    "pos del_100_200 = PInt 100"
    "info del_100_200 ''END'' = Some (PStr ''200'')"
    "info del_100_200 ''CIPOS'' = Some (PStr ''-2,2'')"
    "info del_100_200 ''CIEND'' = Some (PStr ''-3,3'')"
    "info del_100_200 ''CIPOS95'' = Some (PStr ''-1,1'')"
    "info del_100_200 ''CIEND95'' = Some (PStr ''0,0'')"
    "info del_100_200 ''SVLEN'' = Some (PStr ''-100'')"
    "info del_100_200 ''SECONDARY'' = None"
    by (simp_all add: del_100_200_def del_record_def ci_fields_def)
  have c: "chrom del_100_200 = ''1''" "var_id del_100_200 = ''7''"
    by (simp_all add: del_100_200_def del_record_def)
  from to_bnd_strings_mates [OF i, of fixed_serialisers True]
  show ?thesis
    by (auto simp: c fixed_serialisers_def)
qed

section \<open>Properties of the quantile trimming\<close>














section \<open>Properties of the low-frequency test\<close>














section \<open>Properties of the naive-Bayes test\<close>










section \<open>The exclude set in the three tests\<close>

lemma sample_cn_agree:
  assumes "agree_outside exclude var var'" and "s \<notin> set exclude"
  shows "sample_cn flt var' gender s = sample_cn flt var gender s"
proof -
  from assms have g: "gts var' s = gts var s" and c: "chrom var' = chrom var"
    by (simp_all add: agree_outside_def)
  show ?thesis unfolding sample_cn_def g c by (rule refl)
qed

lemma collect_cn_agree:
  assumes "agree_outside exclude var var'"
  shows "collect_cn flt var' gender exclude ss acc = collect_cn flt var gender exclude ss acc"
proof (induction ss arbitrary: acc)
  case Nil
  then show ?case by simp
next
  case (Cons s ss)
  obtain h e a where acc: "acc = (h, e, a)" by (cases acc)
  show ?case
  proof (cases "s \<in> set exclude")
    case True
    then show ?thesis by (simp add: acc Cons)
  next
    case False
    with assms have g: "gts var' s = gts var s" by (simp add: agree_outside_def)
    from False show ?thesis
      by (simp add: acc Cons sample_cn_agree [OF assms False] g cong: if_cong)
  qed
qed

lemma tally_mad_agree:
  assumes "info var' = info var"
  shows "tally_mad var' m d cns q = tally_mad var m d cns q"
  using assms by (induction cns arbitrary: q) (simp_all add: info_get_def Let_def cong: if_cong)

text \<open>
  The low-frequency test and the naive-Bayes test skip the excluded samples: two
  records that agree outside the exclude set get the same result, or the same exception.
\<close>

lemma has_low_freq_depth_support_ignores_excluded:
  assumes "agree_outside exclude var var'"
  shows "has_low_freq_depth_support flt var' gender exclude =
         has_low_freq_depth_support flt var gender exclude"
proof -
  from assms have i: "info var' = info var" and s: "sample_list var' = sample_list var"
    by (simp_all add: agree_outside_def)
  show ?thesis
    unfolding has_low_freq_depth_support_def collect_cn_agree [OF assms] s tally_mad_agree [OF i]
    by (rule refl)
qed

lemma emap_cong_set:
  assumes "\<forall>x\<in>set xs. f x = g x"
  shows "emap f xs = emap g xs"
  using assms by (induction xs) simp_all

lemma has_cn_support_by_nb_ignores_excluded:
  assumes "agree_outside exclude var var'"
  shows "has_cn_support_by_nb flt var' exclude het_del_fit hom_del_fit params p_cnv =
         has_cn_support_by_nb flt var exclude het_del_fit hom_del_fit params p_cnv"
proof -
  from assms have s: "sample_list var' = sample_list var"
    by (simp add: agree_outside_def)
  have "make_cn_rec flt var' x = make_cn_rec flt var x" if "x \<notin> set exclude" for x
    using assms that by (simp add: make_cn_rec_def agree_outside_def info_get_def)
  then have "emap (make_cn_rec flt var') (filter (\<lambda>s. s \<notin> set exclude) (sample_list var)) =
      emap (make_cn_rec flt var) (filter (\<lambda>s. s \<notin> set exclude) (sample_list var))"
    by (intro emap_cong_set) simp
  then show ?thesis
    unfolding has_cn_support_by_nb_def s by (simp only:)
qed

lemma linregress_two_points: "linregress [(0, 2), (1, 0)] = (- 2, - 1)"
proof -
  have h: "sqrt (1 / 4) = 1 / 2" by (simp add: real_sqrt_divide)
  show ?thesis
    by (simp add: linregress_def mean_def Let_def h)
qed

text \<open>
  Claim C4 says that the format fields of an excluded sample have no influence on any of
  the three depth tests. The high-frequency test does not skip excluded samples. The
  two records below have the same chromosome, INFO, sample list and formats and the
  same fields for the only non-excluded sample \<open>B\<close>; with \<open>X\<close> excluded, slope
  threshold \<open>1.0\<close> and r-squared threshold \<open>0.2\<close> the test returns \<^verbatim>\<open>False\<close> on one
  (only \<open>B\<close> has an allele balance, so the data are uniform) and \<^verbatim>\<open>True\<close> on the other
  (the excluded sample supplies the second point of a regression line of slope \<open>-2\<close>).
\<close>

theorem has_high_freq_depth_support_reads_excluded:
  "chrom del_excluded_hom_alt = chrom del_excluded_missing \<and>
   info del_excluded_hom_alt = info del_excluded_missing \<and>
   sample_list del_excluded_hom_alt = sample_list del_excluded_missing \<and>
   active_formats del_excluded_hom_alt = active_formats del_excluded_missing \<and>
   gts del_excluded_hom_alt ''B'' = gts del_excluded_missing ''B'' \<and>
   has_high_freq_depth_support decimals del_excluded_missing Map.empty [''X''] 1 (1 / 5)
     = Inr False \<and>
   has_high_freq_depth_support decimals del_excluded_hom_alt Map.empty [''X''] 1 (1 / 5)
     = Inr True"
proof -
  have a: "has_high_freq_depth_support decimals del_excluded_missing Map.empty [''X''] 1 (1 / 5)
     = Inr False"
    by (simp add: has_high_freq_depth_support_def del_excluded_missing_def sample_record_def
          sample_ab_def sample_cn_def py_float_def decimals_def)
  have b: "has_high_freq_depth_support decimals del_excluded_hom_alt Map.empty [''X''] 1 (1 / 5)
     = Inr True"
    by (simp add: has_high_freq_depth_support_def del_excluded_hom_alt_def sample_record_def
          sample_ab_def sample_cn_def py_float_def decimals_def linregress_two_points
          info_get_def del_info_def)
  have c: "gts del_excluded_hom_alt ''B'' = gts del_excluded_missing ''B''"
    by (simp add: del_excluded_hom_alt_def del_excluded_missing_def sample_record_def)
  from a b c show ?thesis
    by (simp add: del_excluded_hom_alt_def del_excluded_missing_def sample_record_def)
qed

lemma excluded_examples_agree: "agree_outside [''X''] del_excluded_missing del_excluded_hom_alt"
  by (auto simp: agree_outside_def del_excluded_hom_alt_def del_excluded_missing_def
        sample_record_def)

section \<open>Properties of the classification of a line\<close>


lemma mei_check_no_index: "mei_check c None var = Inr (None, None)"
  by (simp add: mei_check_def)

lemma classify_line_candidate:
  assumes "line_svtype line = Inr (Some ty)" and "ty = ''DEL'' \<or> ty = ''DUP''"
    and "mei_check c ae (c_Variant c hdr (line_fields line)) = Inr (None, ae')"
  shows "classify_line c hdr ae line =
     (let var = c_Variant c hdr (line_fields line) in
      if chrom var = ''X'' \<or> chrom var = ''Y'' then
        Inr \<lparr>written = [line], diag = None, ae_after = ae'\<rparr>
      else
        let num_pos_samps = count_pos_samps var (c_exclude c) (sample_list var) 0;
            row = (\<lambda>var nb hf lf. Some (var_id var, ty, num_pos_samps, nb, hf, lf))
        in
        if num_pos_samps = 0 then
          Inr \<lparr>written = [line], diag = row var False False False, ae_after = ae'\<rparr>
        else
          ebind (has_cn_support_by_nb (c_flt c) var (c_exclude c) (c_het_del_fit c)
                   (c_hom_del_fit c) (c_params c) (1 / 2)) (\<lambda>nb_support.
            if num_pos_samps < 10 then
              ebind (has_low_freq_depth_support (c_flt c) var (c_gender c)
                       (c_exclude c)) (\<lambda>low_freq_support.
                if low_freq_support then
                  Inr \<lparr>written = [line], diag = row var nb_support False True,
                       ae_after = ae'\<rparr>
                else
                  ebind (bnd_lines c var) (\<lambda>(ls, var).
                    Inr \<lparr>written = ls, diag = row var nb_support False False,
                         ae_after = ae'\<rparr>))
            else
              ebind (has_high_freq_depth_support (c_flt c) var (c_gender c)
                       (c_exclude c) (c_slope_threshold c)
                       (c_rsquared_threshold c)) (\<lambda>high_freq_support.
                if high_freq_support then
                  Inr \<lparr>written = [line], diag = row var nb_support True False,
                       ae_after = ae'\<rparr>
                else
                  ebind (bnd_lines c var) (\<lambda>(ls, var).
                    Inr \<lparr>written = ls, diag = row var nb_support False False,
                         ae_after = ae'\<rparr>))))"
proof -
  have m: "(Some ty \<notin> set [Some ''DEL'', Some ''DUP'']) = False"
    using assms(2) by auto
  show ?thesis
    unfolding classify_line_def assms(1) ebind.simps Let_def assms(3) m if_False
      prod.case option.case option.sel
    by (rule refl)
qed

text \<open>
  Claim C6, amended: a candidate (DEL or DUP) line whose variant lies on chromosome X or
  Y and is not rewritten as a mobile-element insertion is written to the output
  unmodified, before the positive samples are counted and before any depth test or
  breakend rewriting. That is the case whenever no annotation index is supplied, and
  with an index whenever the mobile-element check finds nothing to rewrite. The
  mobile-element check itself comes first and is not skipped on X or Y.
\<close>

theorem sex_chromosome_passes_unless_mei:
  assumes "line_svtype line = Inr (Some ty)" and "ty = ''DEL'' \<or> ty = ''DUP''"
    and "chrom (c_Variant c hdr (line_fields line)) = ''X'' \<or>
         chrom (c_Variant c hdr (line_fields line)) = ''Y''"
  shows "(ae = None \<longrightarrow>
            classify_line c hdr ae line =
              Inr \<lparr>written = [line], diag = None, ae_after = None\<rparr>) \<and>
         (mei_check c ae (c_Variant c hdr (line_fields line)) = Inr (None, ae') \<longrightarrow>
            classify_line c hdr ae line =
              Inr \<lparr>written = [line], diag = None, ae_after = ae'\<rparr>)"
proof -
  have "classify_line c hdr ae line = Inr \<lparr>written = [line], diag = None, ae_after = a\<rparr>"
    if "mei_check c ae (c_Variant c hdr (line_fields line)) = Inr (None, a)" for a
    using assms(3) by (simp add: classify_line_candidate [OF assms(1,2) that] Let_def)
  then show ?thesis
    using mei_check_no_index by blast
qed


section \<open>The classification of example lines\<close>



lemma samples_header_abc: "drop 9 (line_fields (last header_abc)) = [''A'', ''B'', ''C'']"
  by (simp add: header_abc_def line_fields_def vcf_line_def rstrip_def is_space_def)

lemma plain_info_full: "plain_info full_info ''SVTYPE'' = Some (PStr ''DEL'')"
  "plain_info full_info ''SVLEN'' = Some (PStr ''-5000'')"
  "plain_info full_info ''END'' = Some (PStr ''5100'')"
  "plain_info full_info ''AF'' = Some (PStr ''0.5'')"
  "plain_info full_info ''CIPOS'' = Some (PStr ''-2,2'')"
  "plain_info full_info ''CIEND'' = Some (PStr ''-3,3'')"
  "plain_info full_info ''CIPOS95'' = Some (PStr ''-1,1'')"
  "plain_info full_info ''CIEND95'' = Some (PStr ''0,0'')"
  by (simp_all add: plain_info_def full_info_def)

lemma fields_x_line: "line_fields (vcf_line x_fields) = x_fields"
  by (simp add: line_fields_def vcf_line_def x_fields_def rstrip_def is_space_def full_info_def)

lemma svtype_x_line: "line_svtype (vcf_line x_fields) = Inr (Some ''DEL'')"
  unfolding line_svtype_def fields_x_line Let_def
  by (simp add: x_fields_def full_info_def startswith_def)

lemma x_variant_sel: "chrom (plain_Variant header_abc x_fields) = ''X''"
  "info (plain_Variant header_abc x_fields) = plain_info full_info"
  "pos (plain_Variant header_abc x_fields) = PInt 100"
  "var_id (plain_Variant header_abc x_fields) = ''7''"
  "ref_allele (plain_Variant header_abc x_fields) = ''N''"
  "qual (plain_Variant header_abc x_fields) = ''0.00''"
  "filter_field (plain_Variant header_abc x_fields) = ''.''"
  by (simp_all add: plain_Variant_def samples_header_abc Let_def x_fields_def int_of_string_def strip_def
        rstrip_def is_space_def nat_of_digits_def digit_val_def)

lemma int_of_string_5100: "int_of_string ''5100'' = Some 5100"
  by (simp add: int_of_string_def strip_def rstrip_def is_space_def nat_of_digits_def digit_val_def)

lemma annotation_intersect_x: "annotation_intersect (plain_Variant header_abc x_fields) sine_index (9 / 10) =
    Inr (Some ''SINE|Alu|AluY'', sine_index)"
  unfolding annotation_intersect_def x_variant_sel
  by (simp add: sine_index_def info_get_def x_variant_sel plain_info_full int_of_string_5100 f_start_def f_end_def f_class_def
        collapse_bed_records_def reciprocal_overlap_def)

lemma mei_check_x: "mei_check plain_classifier (Some sine_index) (plain_Variant header_abc x_fields) =
    Inr (Some (vcf_line [''X'', ''100'', ''7'', ''N'', ''<DEL:ME:SINE|Alu|AluY>'', ''0.00'', ''.'',
                         ''SVTYPE=MEI'']), Some sine_index)"
proof -
  have f: "c_f_overlap plain_classifier = 9 / 10" "c_methods plain_classifier = plain_serialisers"
    by (simp_all add: plain_classifier_def)
  have s: "str_of_int 100 = ''100''"
    by (simp add: str_of_int_def digits_of_nat.simps digit_char_def)
  show ?thesis
    unfolding mei_check_def f
    by (simp add: info_get_def x_variant_sel plain_info_full annotation_intersect_x mei_name_def startswith_def plain_serialisers_def
          info_set_def vcf_line_def s)
qed

lemma classify_x_line: "classify_line plain_classifier header_abc (Some sine_index) (vcf_line x_fields) =
    Inr \<lparr>written = [vcf_line [''X'', ''100'', ''7'', ''N'', ''<DEL:ME:SINE|Alu|AluY>'', ''0.00'',
                                 ''.'', ''SVTYPE=MEI'']],
         diag = None, ae_after = Some sine_index\<rparr>"
proof -
  have v: "c_Variant plain_classifier = plain_Variant" by (simp add: plain_classifier_def)
  show ?thesis
    unfolding classify_line_def svtype_x_line fields_x_line ebind.simps Let_def v mei_check_x
    by simp
qed


text \<open>
  Claim C6, as stated, covers the case in which an annotation index is supplied. The
  line below is a deletion on chromosome X from 100 to 5100, and the index holds a SINE
  element on X over the same interval: the mobile-element check comes before the
  sex-chromosome check, and the line written is the variant rewritten as MEI, not the
  original line.
\<close>

theorem sex_chromosome_deletion_rewritten_as_mei:
  "line_svtype (vcf_line x_fields) = Inr (Some ''DEL'') \<and>
   chrom (c_Variant plain_classifier header_abc (line_fields (vcf_line x_fields))) = ''X'' \<and>
   classify_line plain_classifier header_abc (Some sine_index) (vcf_line x_fields) =
     Inr \<lparr>written = [vcf_line [''X'', ''100'', ''7'', ''N'', ''<DEL:ME:SINE|Alu|AluY>'', ''0.00'',
                                  ''.'', ''SVTYPE=MEI'']],
          diag = None, ae_after = Some sine_index\<rparr> \<and>
   written (projr (classify_line plain_classifier header_abc (Some sine_index)
                     (vcf_line x_fields))) \<noteq> [vcf_line x_fields]"
proof -
  have v: "c_Variant plain_classifier = plain_Variant" by (simp add: plain_classifier_def)
  have "vcf_line [''X'', ''100'', ''7'', ''N'', ''<DEL:ME:SINE|Alu|AluY>'', ''0.00'', ''.'',
                  ''SVTYPE=MEI''] \<noteq> vcf_line x_fields"
    by (simp add: vcf_line_def x_fields_def)
  then show ?thesis
    by (simp add: svtype_x_line v fields_x_line x_variant_sel classify_x_line)
qed

theorem sex_chromosome_passes_unless_mei_witness:
  "classify_line plain_classifier header_abc None (vcf_line x_fields) =
     Inr \<lparr>written = [vcf_line x_fields], diag = None, ae_after = None\<rparr> \<and>
   classify_line plain_classifier header_abc (Some chr1_index) (vcf_line x_fields) =
     Inr \<lparr>written = [vcf_line x_fields], diag = None, ae_after = Some chr1_index\<rparr>"
proof -
  have v: "c_Variant plain_classifier = plain_Variant" by (simp add: plain_classifier_def)
  have d: "''DEL'' = ''DEL'' \<or> ''DEL'' = ''DUP''" by simp
  have x: "chrom (c_Variant plain_classifier header_abc (line_fields (vcf_line x_fields))) = ''X'' \<or>
      chrom (c_Variant plain_classifier header_abc (line_fields (vcf_line x_fields))) = ''Y''"
    by (simp add: v fields_x_line x_variant_sel)
  have m: "mei_check plain_classifier (Some chr1_index)
      (c_Variant plain_classifier header_abc (line_fields (vcf_line x_fields))) =
      Inr (None, Some chr1_index)"
    unfolding v fields_x_line mei_check_def
    by (simp add: info_get_def x_variant_sel plain_info_full annotation_intersect_def chr1_index_def)
  from sex_chromosome_passes_unless_mei [OF svtype_x_line d x, of None]
    sex_chromosome_passes_unless_mei [OF svtype_x_line d x, of "Some chr1_index" "Some chr1_index"] m
  show ?thesis by simp
qed



















end
